theory Spec2Isabelle
  imports Main "HOL-Library.Sublist"
begin

section \<open>Wasabi single-file uploader (app.py)\<close>

text \<open>
  The uploader is one Flask module: module-level initialisation reads five
  environment variables, builds an S3 client and runs \<open>auth_ok()\<close> once; the
  single route \<open>index()\<close> then serves every GET and POST. The object store, the
  random source behind \<open>uuid.uuid4()\<close> and the filename sanitizer
  \<open>werkzeug.utils.secure_filename\<close> are outside the module: the store is a record
  of outcomes, the random source a sequence of strings, and the sanitizer a parameter.
  Every call made on the S3 client is appended to a log, so that what a request did to
  the store can be stated.
\<close>

subsection \<open>Python values\<close>

type_synonym bytes = "char list"

text \<open>\<open>str.isspace()\<close> on one character, for code points below 256.\<close>

definition py_isspace :: "char \<Rightarrow> bool" where
  "py_isspace c =
     (of_char c \<in> {9::nat, 10, 11, 12, 13, 28, 29, 30, 31, 32, 133, 160})"

text \<open>\<open>str.strip()\<close> with no argument.\<close>

definition py_strip :: "string \<Rightarrow> string" where
  "py_strip s = rev (dropWhile py_isspace (rev (dropWhile py_isspace s)))"

text \<open>\<open>sub in s\<close> on two strings: \<open>sub\<close> occurs in \<open>s\<close> as a contiguous run.\<close>

fun py_in :: "string \<Rightarrow> string \<Rightarrow> bool" where
  "py_in sub [] = (sub = [])"
| "py_in sub (c # cs) = (prefix sub (c # cs) \<or> py_in sub cs)"

text \<open>
  \<open>str(x)\<close> as an f-string field \<open>{x}\<close> formats it, for a value that is a string or
  \<open>None\<close>.
\<close>

fun py_str :: "string option \<Rightarrow> string" where
  "py_str None = ''None''"
| "py_str (Some s) = s"

text \<open>Truthiness of a value that is a string or \<open>None\<close>.\<close>

fun truthy :: "string option \<Rightarrow> bool" where
  "truthy None = False"
| "truthy (Some s) = (s \<noteq> [])"

text \<open>
  \<open>repr(x)\<close>, as the f-string field \<open>{x!r}\<close> formats it, for code points below 256.
  The quote is the apostrophe unless the string has an apostrophe and no double quote;
  the quote and the backslash are escaped with a backslash, tab, newline and carriage
  return are written \<open>\t\<close>, \<open>\n\<close>, \<open>\r\<close>, and every other non-printable character is
  written \<open>\xhh\<close>.
\<close>

definition hex_digit :: "nat \<Rightarrow> char" where
  "hex_digit n = (if n < 10 then char_of (48 + n) else char_of (87 + n))"

definition py_isprintable :: "char \<Rightarrow> bool" where
  "py_isprintable c =
     (let n = (of_char c :: nat)
      in (32 \<le> n \<and> n < 127) \<or> (161 \<le> n \<and> n \<noteq> 173))"

definition repr_char :: "char \<Rightarrow> char \<Rightarrow> string" where
  "repr_char quote c =
     (if c = quote \<or> c = CHR 0x5C then [CHR 0x5C, c]
      else if c = CHR 0x09 then [CHR 0x5C, CHR ''t'']
      else if c = CHR 0x0A then [CHR 0x5C, CHR ''n'']
      else if c = CHR 0x0D then [CHR 0x5C, CHR ''r'']
      else if py_isprintable c then [c]
      else [CHR 0x5C, CHR ''x'',
            hex_digit (of_char c div 16), hex_digit (of_char c mod 16)])"

definition repr_quote :: "string \<Rightarrow> char" where
  "repr_quote s =
     (if CHR 0x27 \<in> set s \<and> CHR 0x22 \<notin> set s then CHR 0x22 else CHR 0x27)"

fun py_repr :: "string option \<Rightarrow> string" where
  "py_repr None = ''None''"
| "py_repr (Some s) =
     (let q = repr_quote s in [q] @ concat (map (repr_char q) s) @ [q])"

subsection \<open>Exceptions\<close>

text \<open>
  A \<open>botocore.exceptions.ClientError\<close> carries the store's error response. The two
  fields are what \<open>e.response.get("Error", {}).get("Code")\<close> and
  \<open>....get("Message")\<close> evaluate to: \<open>None\<close> when the key is absent. Both lookups are
  \<open>dict.get\<close> and cannot raise, so the \<open>except Exception: return str(e)\<close> arm of
  \<open>_err_text\<close> is never taken and has no counterpart here.
\<close>

record client_error =
  Code :: "string option"
  Message :: "string option"

text \<open>
  The exceptions the module can meet: \<open>AttributeError\<close> from \<open>.strip()\<close> on
  \<open>None\<close>, \<open>ClientError\<close> from a call on the S3 client, and any other exception
  such a call raises (botocore's connection and parameter-validation errors are not
  subclasses of \<open>ClientError\<close>).
\<close>

datatype exn =
  AttributeError string
| ClientError client_error
| OtherError string

type_synonym 'a result = "exn + 'a"

text \<open>\<open>_err_text(e)\<close>: the f-string \<open>f"{code}: {msg}"\<close>.\<close>

definition err_text :: "client_error \<Rightarrow> string" where
  "err_text e = py_str (Code e) @ '': '' @ py_str (Message e)"

subsection \<open>The object store, the random source and the call log\<close>

text \<open>
  What each method of the S3 client does when called: it returns, or it raises. The
  arguments are the keyword arguments the module passes (\<open>Bucket\<close>, \<open>Key\<close>,
  \<open>Body\<close>, \<open>ContentType\<close>; the client method, \<open>Bucket\<close>, \<open>Key\<close>, \<open>ExpiresIn\<close>).
  \<open>WASABI_BUCKET\<close> is a string or \<open>None\<close>, so \<open>Bucket\<close> is an option.
\<close>

record store =
  list_buckets :: "unit result"
  head_bucket :: "string option \<Rightarrow> unit result"
  put_object :: "string option \<Rightarrow> string \<Rightarrow> bytes \<Rightarrow> string \<Rightarrow> unit result"
  generate_presigned_url :: "string \<Rightarrow> string option \<Rightarrow> string \<Rightarrow> nat \<Rightarrow> string result"

datatype s3_call =
  ListBuckets
| HeadBucket "string option"
| PutObject "string option" string bytes string
| GeneratePresignedUrl string "string option" string nat

text \<open>
  botocore checks the \<open>Bucket\<close> argument of a call on the client side, before any
  request is sent (\<open>validate_bucket_name\<close>): a bucket name has 1 to 255 characters,
  each an ASCII letter, a digit, a dot, a hyphen or an underscore. For another name the
  call raises \<open>ParamValidationError\<close>, which is not a \<open>ClientError\<close>. (The check
  also lets access-point ARNs through; they are not bucket names and are not modelled.)
  A store validates bucket names when its head-bucket call raises a \<open>ClientError\<close>,
  the answer to a request that was sent, for valid names only.
\<close>

definition bucket_name_char :: "char \<Rightarrow> bool" where
  "bucket_name_char c =
     (let n = (of_char c :: nat)
      in (97 \<le> n \<and> n \<le> 122) \<or> (65 \<le> n \<and> n \<le> 90) \<or> (48 \<le> n \<and> n \<le> 57)
         \<or> n = 46 \<or> n = 45 \<or> n = 95)"

definition valid_bucket_name :: "string \<Rightarrow> bool" where
  "valid_bucket_name s = (1 \<le> length s \<and> length s \<le> 255 \<and> list_all bucket_name_char s)"

definition validates_bucket_name :: "store \<Rightarrow> bool" where
  "validates_bucket_name st =
     (\<forall>b e. head_bucket st b = Inl (ClientError e) \<longrightarrow> (\<exists>s. b = Some s \<and> valid_bucket_name s))"

text \<open>
  The world outside the module: the store as it answers now; what boto3 does when the
  module builds its session (from access key, secret key and region) and its client (from
  these and the endpoint URL), each of which returns or raises (an endpoint URL without
  scheme is a \<open>ValueError\<close>, a malformed region an \<open>InvalidRegionError\<close>); the strings
  that successive \<open>str(uuid.uuid4())\<close> evaluations give, how many were drawn, and the
  calls made on the S3 client so far, oldest first.
\<close>

record world =
  s3_store :: store
  boto3_session :: "string \<Rightarrow> string \<Rightarrow> string \<Rightarrow> unit result"
  session_client :: "string \<Rightarrow> string \<Rightarrow> string \<Rightarrow> string \<Rightarrow> unit result"
  uuid_source :: "nat \<Rightarrow> string"
  uuid_drawn :: nat
  s3_calls :: "s3_call list"

definition uuid4_str :: "world \<Rightarrow> string \<times> world" where
  "uuid4_str w = (uuid_source w (uuid_drawn w), w\<lparr>uuid_drawn := Suc (uuid_drawn w)\<rparr>)"

definition s3_list_buckets :: "world \<Rightarrow> unit result \<times> world" where
  "s3_list_buckets w =
     (list_buckets (s3_store w), w\<lparr>s3_calls := s3_calls w @ [ListBuckets]\<rparr>)"

definition s3_head_bucket :: "string option \<Rightarrow> world \<Rightarrow> unit result \<times> world" where
  "s3_head_bucket b w =
     (head_bucket (s3_store w) b, w\<lparr>s3_calls := s3_calls w @ [HeadBucket b]\<rparr>)"

definition s3_put_object ::
  "string option \<Rightarrow> string \<Rightarrow> bytes \<Rightarrow> string \<Rightarrow> world \<Rightarrow> unit result \<times> world" where
  "s3_put_object b k body ct w =
     (put_object (s3_store w) b k body ct,
      w\<lparr>s3_calls := s3_calls w @ [PutObject b k body ct]\<rparr>)"

definition s3_generate_presigned_url ::
  "string \<Rightarrow> string option \<Rightarrow> string \<Rightarrow> nat \<Rightarrow> world \<Rightarrow> string result \<times> world" where
  "s3_generate_presigned_url m b k expires w =
     (generate_presigned_url (s3_store w) m b k expires,
      w\<lparr>s3_calls := s3_calls w @ [GeneratePresignedUrl m b k expires]\<rparr>)"

subsection \<open>Module initialisation\<close>

text \<open>
  \<open>_env(name, required, default)\<close>: \<open>os.getenv(name, default)\<close>, trimmed, with the
  empty string turned into \<open>None\<close>. The argument \<open>required\<close> is never read.
\<close>

definition env_get ::
  "(string \<rightharpoonup> string) \<Rightarrow> string \<Rightarrow> bool \<Rightarrow> string option \<Rightarrow> string option" where
  "env_get environ name required dflt =
     (case (case environ name of Some v \<Rightarrow> Some v | None \<Rightarrow> dflt) of
        None \<Rightarrow> None
      | Some v \<Rightarrow> (let v' = py_strip v in if v' \<noteq> [] then Some v' else None))"

text \<open>
  \<open>x.strip()\<close> where \<open>x\<close> is a string or \<open>None\<close>: on \<open>None\<close> the attribute lookup
  raises \<open>AttributeError\<close> (the exception names the missing attribute).
\<close>

definition attr_strip :: "string option \<Rightarrow> string result" where
  "attr_strip x =
     (case x of None \<Rightarrow> Inl (AttributeError ''strip'') | Some s \<Rightarrow> Inr (py_strip s))"

text \<open>
  The module's globals once initialisation is over. \<open>s3_endpoint_host\<close> is
  \<open>s3._endpoint.host\<close>, the endpoint URL the client was built with; \<open>g_auth_ok\<close> and
  \<open>g_auth_err\<close> are \<open>_auth_ok\<close> and \<open>_auth_err\<close>.
\<close>

record app =
  WASABI_ACCESS_KEY :: "string option"
  WASABI_SECRET_KEY :: "string option"
  WASABI_REGION :: "string option"
  WASABI_ENDPOINT :: "string option"
  WASABI_BUCKET :: "string option"
  s3_endpoint_host :: string
  g_auth_ok :: bool
  g_auth_err :: "string option"

text \<open>\<open>auth_ok()\<close>: only \<open>ClientError\<close> is caught.\<close>

definition auth_ok :: "world \<Rightarrow> (bool \<times> string option) result \<times> world" where
  "auth_ok w =
     (case s3_list_buckets w of
        (Inr _, w') \<Rightarrow> (Inr (True, None), w')
      | (Inl (ClientError e), w') \<Rightarrow> (Inr (False, Some (err_text e)), w')
      | (Inl x, w') \<Rightarrow> (Inl x, w'))"

text \<open>
  The module's top level, run once when the process starts, on the environment as
  \<open>load_dotenv()\<close> left it. The first three \<open>.strip()\<close> calls are the arguments
  of \<open>Session(...)\<close>, evaluated in this order before the session is built; the fourth
  is the argument of \<open>session.client(...)\<close>. Removing the ambient \<open>AWS_*\<close>
  variables and the debug prints (with \<open>_mask\<close>) come after the five reads, touch
  nothing the module reads later and cannot raise once the four values are strings; they
  are left out. \<open>Inl\<close> is an exception leaving the module: the process ends before
  \<open>app\<close> exists.
\<close>

definition module_init :: "(string \<rightharpoonup> string) \<Rightarrow> world \<Rightarrow> app result \<times> world" where
  "module_init environ w =
     (let access_key = env_get environ ''WASABI_ACCESS_KEY'' True None;
          secret_key = env_get environ ''WASABI_SECRET_KEY'' True None;
          region_v = env_get environ ''WASABI_REGION'' True None;
          endpoint_v = env_get environ ''WASABI_ENDPOINT'' True None;
          bucket_v = env_get environ ''WASABI_BUCKET'' True None
      in case attr_strip access_key of Inl x \<Rightarrow> (Inl x, w) | Inr ak \<Rightarrow>
        (case attr_strip secret_key of Inl x \<Rightarrow> (Inl x, w) | Inr sk \<Rightarrow>
        (case attr_strip region_v of Inl x \<Rightarrow> (Inl x, w) | Inr rg \<Rightarrow>
        (case boto3_session w ak sk rg of Inl x \<Rightarrow> (Inl x, w) | Inr _ \<Rightarrow>
        (case attr_strip endpoint_v of Inl x \<Rightarrow> (Inl x, w) | Inr ep \<Rightarrow>
        (case session_client w ak sk rg ep of Inl x \<Rightarrow> (Inl x, w) | Inr _ \<Rightarrow>
        (case auth_ok w of
           (Inl x, w') \<Rightarrow> (Inl x, w')
         | (Inr (ok, err), w') \<Rightarrow>
             (Inr \<lparr>WASABI_ACCESS_KEY = access_key, WASABI_SECRET_KEY = secret_key,
                   WASABI_REGION = region_v, WASABI_ENDPOINT = endpoint_v,
                   WASABI_BUCKET = bucket_v, s3_endpoint_host = ep,
                   g_auth_ok = ok, g_auth_err = err\<rparr>, w'))))))))"

subsection \<open>The two checks before an upload\<close>

text \<open>\<open>preflight_bucket()\<close>: \<open>None\<close> when the bucket answers, a message otherwise.\<close>

definition preflight_bucket :: "app \<Rightarrow> world \<Rightarrow> string option result \<times> world" where
  "preflight_bucket a w =
     (case s3_head_bucket (WASABI_BUCKET a) w of
        (Inr _, w') \<Rightarrow> (Inr None, w')
      | (Inl (ClientError e), w') \<Rightarrow>
          (let err = err_text e in
           if py_in ''NoSuchBucket'' err \<or> py_in ''404'' err then
             (Inr (Some (''Bucket not found. Check spelling and region. ''
                @ ''(bucket='' @ py_repr (WASABI_BUCKET a)
                @ '', region='' @ py_str (WASABI_REGION a)
                @ '', endpoint='' @ py_str (WASABI_ENDPOINT a) @ '')'')), w')
           else if py_in ''AccessDenied'' err \<or> py_in ''403'' err then
             (Inr (Some (''Access denied to bucket. Keys must belong to same Wasabi account ''
                @ ''and have s3:ListBucket & s3:PutObject.'')), w')
           else if py_in ''AuthorizationHeaderMalformed'' err \<or> py_in ''301'' err then
             (Inr (Some (''Region mismatch. Set WASABI_REGION to the bucket''
                @ [CHR 0x27] @ ''s region ''
                @ ''and use endpoint https://s3.<region>.wasabisys.com'')), w')
           else (Inr (Some err), w'))
      | (Inl x, w') \<Rightarrow> (Inl x, w'))"

text \<open>\<open>diag_put()\<close>: a four-byte object under \<open>diag/<uuid>.txt\<close>.\<close>

definition diag_put :: "app \<Rightarrow> world \<Rightarrow> string option result \<times> world" where
  "diag_put a w =
     (case uuid4_str w of
        (u, w1) \<Rightarrow>
          (let test_key = ''diag/'' @ u @ ''.txt'' in
           case s3_put_object (WASABI_BUCKET a) test_key ''diag'' ''text/plain'' w1 of
             (Inr _, w2) \<Rightarrow> (Inr None, w2)
           | (Inl (ClientError e), w2) \<Rightarrow> (Inr (Some (err_text e)), w2)
           | (Inl x, w2) \<Rightarrow> (Inl x, w2)))"

subsection \<open>The request handler\<close>

text \<open>
  The methods with which the route's function is called: the route lists GET and POST,
  and Flask answers HEAD through a route that accepts GET.
\<close>

datatype http_method = GET | HEAD | POST

text \<open>
  A \<open>werkzeug\<close> \<open>FileStorage\<close>: the filename the client declared, the bytes of the
  stream, the declared content type. Its truth value is that of its filename
  (\<open>FileStorage.__bool__\<close>), which is what \<open>if not f\<close> tests once \<open>f\<close> is not
  \<open>None\<close>.
\<close>

record file_storage =
  filename :: string
  stream :: bytes
  mimetype :: string

text \<open>
  A request: its method and \<open>request.files.get("file")\<close>, \<open>None\<close> when the form has no
  part named \<open>file\<close>.
\<close>

record request =
  req_method :: http_method
  req_file :: "file_storage option"

text \<open>
  A rendered page is the template with its six arguments; the template shows the
  startup-error block, the result block and the error block when the matching argument
  is truthy. The \<open>endpoint\<close> argument is \<open>s3._endpoint.host\<close> in every render (the
  last render falls back to \<open>WASABI_ENDPOINT\<close> only for a client without endpoint,
  which \<open>session.client\<close> never returns).
\<close>

record page =
  url :: "string option"
  error :: "string option"
  startup_error :: "string option"
  endpoint :: string
  region :: "string option"
  bucket :: "string option"

definition render_template_string ::
  "app \<Rightarrow> string option \<Rightarrow> string option \<Rightarrow> string option \<Rightarrow> page" where
  "render_template_string a u e s =
     \<lparr>url = u, error = e, startup_error = s, endpoint = s3_endpoint_host a,
      region = WASABI_REGION a, bucket = WASABI_BUCKET a\<rparr>"

text \<open>
  \<open>index()\<close>. \<open>Inl\<close> is an exception that leaves the handler; the world returned
  with it holds the calls made until then.
\<close>

definition index ::
  "(string \<Rightarrow> string) \<Rightarrow> app \<Rightarrow> request \<Rightarrow> world \<Rightarrow> page result \<times> world" where
  "index secure_filename a rq w =
     (if \<not> g_auth_ok a then
        (Inr (render_template_string a None None (g_auth_err a)), w)
      else if req_method rq = POST then
        (case preflight_bucket a w of
           (Inl x, w1) \<Rightarrow> (Inl x, w1)
         | (Inr pre, w1) \<Rightarrow>
           if truthy pre then
             (Inr (render_template_string a None
                (Some (''Bucket check failed: '' @ py_str pre)) None), w1)
           else
             (case diag_put a w1 of
                (Inl x, w2) \<Rightarrow> (Inl x, w2)
              | (Inr d, w2) \<Rightarrow>
                if truthy d then
                  (Inr (render_template_string a None
                     (Some (''Diagnostic PutObject failed: '' @ py_str d)) None), w2)
                else
                  (case req_file rq of
                     None \<Rightarrow>
                       (Inr (render_template_string a None (Some ''No file selected.'') None), w2)
                   | Some f \<Rightarrow>
                     if filename f = [] then
                       (Inr (render_template_string a None (Some ''No file selected.'') None), w2)
                     else
                       (let fname = secure_filename (filename f) in
                        if fname = [] then
                          (Inr (render_template_string a None (Some ''Invalid filename.'') None),
                           w2)
                        else
                          (case uuid4_str w2 of
                             (u, w3) \<Rightarrow>
                               (let key = ''uploads/'' @ u @ ''_'' @ fname in
                                case s3_put_object (WASABI_BUCKET a) key (stream f)
                                       (if mimetype f \<noteq> [] then mimetype f
                                        else ''application/octet-stream'') w3 of
                                  (Inl (ClientError e), w4) \<Rightarrow>
                                    (Inr (render_template_string a None
                                       (Some (err_text e)) None), w4)
                                | (Inl x, w4) \<Rightarrow> (Inl x, w4)
                                | (Inr _, w4) \<Rightarrow>
                                    (case s3_generate_presigned_url ''get_object''
                                            (WASABI_BUCKET a) key 3600 w4 of
                                       (Inl (ClientError e), w5) \<Rightarrow>
                                         (Inr (render_template_string a None
                                            (Some (err_text e)) None), w5)
                                     | (Inl x, w5) \<Rightarrow> (Inl x, w5)
                                     | (Inr v, w5) \<Rightarrow>
                                         (Inr (render_template_string a (Some v) None None),
                                          w5))))))))
      else (Inr (render_template_string a None None None), w))"

text \<open>
  The Flask process after initialisation: requests are handled one after the other by
  \<open>index\<close>, every one with the same module globals. Between two requests the store
  may have changed, so each request comes with the store as it answers at that time.
  The result lists, for every request, the handler's outcome and the calls it made on
  the S3 client.
\<close>

fun run ::
  "(string \<Rightarrow> string) \<Rightarrow> app \<Rightarrow> (store \<times> request) list \<Rightarrow> world
     \<Rightarrow> (page result \<times> s3_call list) list" where
  "run secure_filename a [] w = []"
| "run secure_filename a ((st, rq) # rest) w =
     (case index secure_filename a rq (w\<lparr>s3_store := st, s3_calls := []\<rparr>) of
        (r, w') \<Rightarrow> (r, s3_calls w') # run secure_filename a rest w')"

subsection \<open>Concrete inputs\<close>

text \<open>
  A store on which every call succeeds, and stores on which one call fails (each
  head-bucket failure class, a connection error, a refused put, refused keys); a world
  in which the session is always built and the client is built for an endpoint URL with
  a scheme; two identifiers for the random source; a sanitizer for the examples that keeps ASCII
  letters, digits, underscore, dot and hyphen and drops everything else (on the names
  used below it agrees with \<open>secure_filename\<close>).
\<close>

definition ok_store :: store where
  "ok_store =
     \<lparr>list_buckets = Inr (),
      head_bucket = (\<lambda>b. Inr ()),
      put_object = (\<lambda>b k body ct. Inr ()),
      generate_presigned_url = (\<lambda>m b k n. Inr (''https://s3.example/'' @ k @ ''?sig''))\<rparr>"

definition bad_keys_store :: store where
  "bad_keys_store =
     ok_store\<lparr>list_buckets :=
       Inl (ClientError \<lparr>Code = Some ''InvalidAccessKeyId'',
                         Message = Some ''The access key does not exist''\<rparr>)\<rparr>"

definition no_bucket_store :: store where
  "no_bucket_store =
     ok_store\<lparr>head_bucket :=
       (\<lambda>b. case b of
              None \<Rightarrow> Inl (OtherError ''ParamValidationError'')
            | Some s \<Rightarrow>
                if valid_bucket_name s
                then Inl (ClientError \<lparr>Code = Some ''404'', Message = Some ''Not Found''\<rparr>)
                else Inl (OtherError ''ParamValidationError''))\<rparr>"

definition unreachable_store :: store where
  "unreachable_store =
     ok_store\<lparr>head_bucket := (\<lambda>b. Inl (OtherError ''EndpointConnectionError''))\<rparr>"

definition read_only_store :: store where
  "read_only_store =
     ok_store\<lparr>put_object :=
       (\<lambda>b k body ct. Inl (ClientError \<lparr>Code = Some ''ReadOnly'',
                                        Message = Some ''Writes are disabled''\<rparr>))\<rparr>"

definition forbidden_store :: store where
  "forbidden_store =
     ok_store\<lparr>head_bucket :=
       (\<lambda>b. Inl (ClientError \<lparr>Code = Some ''403'', Message = Some ''Forbidden''\<rparr>))\<rparr>"

definition moved_store :: store where
  "moved_store =
     ok_store\<lparr>head_bucket :=
       (\<lambda>b. Inl (ClientError \<lparr>Code = Some ''301'', Message = Some ''Moved Permanently''\<rparr>))\<rparr>"

definition busy_store :: store where
  "busy_store =
     ok_store\<lparr>head_bucket :=
       (\<lambda>b. Inl (ClientError \<lparr>Code = Some ''SlowDown'',
                              Message = Some ''Please reduce your request rate.''\<rparr>))\<rparr>"

definition cut_off_store :: store where
  "cut_off_store =
     ok_store\<lparr>put_object := (\<lambda>b k body ct. Inl (OtherError ''ConnectionClosedError''))\<rparr>"

definition two_uuids :: "nat \<Rightarrow> string" where
  "two_uuids n =
     (if n = 0 then ''1b4e28ba-2fa1-41d2-883f-0016d3cca427''
      else ''6fa459ea-ee8a-4ca4-894e-db77e160355e'')"

definition fresh_world :: "store \<Rightarrow> world" where
  "fresh_world st =
     \<lparr>s3_store = st,
      boto3_session = (\<lambda>ak sk rg. Inr ()),
      session_client = (\<lambda>ak sk rg ep.
        if prefix ''http://'' ep \<or> prefix ''https://'' ep then Inr ()
        else Inl (OtherError ''ValueError'')),
      uuid_source = two_uuids, uuid_drawn = 0, s3_calls = []\<rparr>"

definition keep_safe_chars :: "string \<Rightarrow> string" where
  "keep_safe_chars s =
     filter (\<lambda>c. c \<in> set (''abcdefghijklmnopqrstuvwxyzABCDEFGHIJKLMNOPQRSTUVWXYZ''
                              @ ''0123456789_.-'')) s"

definition full_environ :: "string \<rightharpoonup> string" where
  "full_environ =
     [''WASABI_ACCESS_KEY'' \<mapsto> ''AKIAEXAMPLEKEY00'',
      ''WASABI_SECRET_KEY'' \<mapsto> ''s3cr3t'',
      ''WASABI_REGION'' \<mapsto> ''us-east-1'',
      ''WASABI_ENDPOINT'' \<mapsto> '' https://s3.wasabisys.com '',
      ''WASABI_BUCKET'' \<mapsto> ''my-bucket'']"

definition ready_app :: app where
  "ready_app =
     \<lparr>WASABI_ACCESS_KEY = Some ''AKIAEXAMPLEKEY00'', WASABI_SECRET_KEY = Some ''s3cr3t'',
      WASABI_REGION = Some ''us-east-1'',
      WASABI_ENDPOINT = Some ''https://s3.wasabisys.com'',
      WASABI_BUCKET = Some ''my-bucket'',
      s3_endpoint_host = ''https://s3.wasabisys.com'',
      g_auth_ok = True, g_auth_err = None\<rparr>"

definition report_upload :: request where
  "report_upload =
     \<lparr>req_method = POST,
      req_file = Some \<lparr>filename = ''report.txt'', stream = ''hello'', mimetype = []\<rparr>\<rparr>"

definition locked_out_app :: app where
  "locked_out_app =
     ready_app\<lparr>g_auth_ok := False,
       g_auth_err := Some ''InvalidAccessKeyId: The access key does not exist''\<rparr>"

definition plain_get :: request where
  "plain_get = \<lparr>req_method = GET, req_file = None\<rparr>"

definition empty_form :: request where
  "empty_form = \<lparr>req_method = POST, req_file = None\<rparr>"

definition nameless_upload :: request where
  "nameless_upload =
     \<lparr>req_method = POST,
      req_file = Some \<lparr>filename = [], stream = ''hello'', mimetype = ''text/plain''\<rparr>\<rparr>"

definition unusable_name_upload :: request where
  "unusable_name_upload =
     \<lparr>req_method = POST,
      req_file = Some \<lparr>filename = ''???'', stream = ''hello'', mimetype = ''text/plain''\<rparr>\<rparr>"

definition blank_region_environ :: "string \<rightharpoonup> string" where
  "blank_region_environ = full_environ(''WASABI_REGION'' \<mapsto> ''   '')"

definition no_endpoint_environ :: "string \<rightharpoonup> string" where
  "no_endpoint_environ =
     [''WASABI_ACCESS_KEY'' \<mapsto> ''AKIAEXAMPLEKEY00'',
      ''WASABI_SECRET_KEY'' \<mapsto> ''s3cr3t'',
      ''WASABI_REGION'' \<mapsto> ''us-east-1'',
      ''WASABI_BUCKET'' \<mapsto> ''my-bucket'']"

definition bare_host_environ :: "string \<rightharpoonup> string" where
  "bare_host_environ = full_environ(''WASABI_ENDPOINT'' \<mapsto> ''s3.wasabisys.com'')"

subsection \<open>Notions used in the statements\<close>

text \<open>Whether an \<open>except ClientError\<close> clause catches an exception.\<close>

fun is_client_error :: "exn \<Rightarrow> bool" where
  "is_client_error (ClientError e) = True"
| "is_client_error x = False"

text \<open>An outcome that an \<open>except ClientError\<close> clause lets through: a return, or a
  \<open>ClientError\<close>.\<close>

definition returns_or_client_error :: "'a result \<Rightarrow> bool" where
  "returns_or_client_error r = (case r of Inl x \<Rightarrow> is_client_error x | Inr v \<Rightarrow> True)"

text \<open>A character that \<open>repr\<close> writes as it is, whatever the quote: printable, and
  neither the backslash nor a quote.\<close>

definition repr_keeps :: "char \<Rightarrow> bool" where
  "repr_keeps c = (py_isprintable c \<and> c \<noteq> CHR 0x5C \<and> c \<noteq> CHR 0x27 \<and> c \<noteq> CHR 0x22)"

text \<open>
  A script of steps, each with whether it succeeds, run in order until the first one
  that fails: the steps carried out are those up to and including the failed one.
\<close>

fun run_until_failure :: "('c \<times> bool) list \<Rightarrow> 'c list" where
  "run_until_failure [] = []"
| "run_until_failure ((c, ok) # rest) = (if ok then c # run_until_failure rest else [c])"

section \<open>Auxiliary facts\<close>

subsection \<open>The steps of a request, one by one\<close>

lemmas s3_defs = s3_list_buckets_def s3_head_bucket_def s3_put_object_def
  s3_generate_presigned_url_def uuid4_str_def

lemma py_in_sublist: "py_in sub s = sublist sub s"
  by (induction s) (auto simp: sublist_Cons_right)

lemma py_in_mid: "py_in s (p @ s @ q)"
  unfolding py_in_sublist by (rule sublist_appendI)

lemma err_text_nonempty: "err_text e \<noteq> []"
  by (simp add: err_text_def)

lemma preflight_world:
  "snd (preflight_bucket a w) = w\<lparr>s3_calls := s3_calls w @ [HeadBucket (WASABI_BUCKET a)]\<rparr>"
  by (simp add: preflight_bucket_def s3_defs Let_def split: sum.splits exn.splits)

lemma preflight_returns:
  "head_bucket (s3_store w) (WASABI_BUCKET a) = Inr v \<Longrightarrow> fst (preflight_bucket a w) = Inr None"
  by (simp add: preflight_bucket_def s3_defs)

lemma preflight_client_error:
  "head_bucket (s3_store w) (WASABI_BUCKET a) = Inl (ClientError e) \<Longrightarrow>
   \<exists>m. m \<noteq> [] \<and> fst (preflight_bucket a w) = Inr (Some m)"
  by (simp add: preflight_bucket_def s3_defs Let_def err_text_nonempty)

lemma preflight_other:
  "head_bucket (s3_store w) (WASABI_BUCKET a) = Inl x \<Longrightarrow> \<not> is_client_error x \<Longrightarrow>
   fst (preflight_bucket a w) = Inl x"
  by (cases x) (simp_all add: preflight_bucket_def s3_defs)

lemma diag_put_world:
  "snd (diag_put a w) = w\<lparr>uuid_drawn := Suc (uuid_drawn w),
     s3_calls := s3_calls w @ [PutObject (WASABI_BUCKET a)
        (''diag/'' @ uuid_source w (uuid_drawn w) @ ''.txt'') ''diag'' ''text/plain'']\<rparr>"
  by (simp add: diag_put_def s3_defs Let_def split: sum.splits exn.splits)

lemma diag_put_returns:
  "put_object (s3_store w) (WASABI_BUCKET a)
     (''diag/'' @ uuid_source w (uuid_drawn w) @ ''.txt'') ''diag'' ''text/plain'' = Inr v \<Longrightarrow>
   fst (diag_put a w) = Inr None"
  by (simp add: diag_put_def s3_defs)

lemma diag_put_client_error:
  "put_object (s3_store w) (WASABI_BUCKET a)
     (''diag/'' @ uuid_source w (uuid_drawn w) @ ''.txt'') ''diag'' ''text/plain''
     = Inl (ClientError e) \<Longrightarrow>
   fst (diag_put a w) = Inr (Some (err_text e))"
  by (simp add: diag_put_def s3_defs)

lemma diag_put_other:
  "put_object (s3_store w) (WASABI_BUCKET a)
     (''diag/'' @ uuid_source w (uuid_drawn w) @ ''.txt'') ''diag'' ''text/plain'' = Inl x \<Longrightarrow>
   \<not> is_client_error x \<Longrightarrow> fst (diag_put a w) = Inl x"
  by (cases x) (simp_all add: diag_put_def s3_defs)

lemma index_auth_failed:
  "\<not> g_auth_ok a \<Longrightarrow>
   index sf a rq w = (Inr (render_template_string a None None (g_auth_err a)), w)"
  by (simp add: index_def)

lemma index_get:
  "g_auth_ok a \<Longrightarrow> req_method rq \<noteq> POST \<Longrightarrow>
   index sf a rq w = (Inr (render_template_string a None None None), w)"
  by (simp add: index_def)

lemma index_preflight_raises:
  "g_auth_ok a \<Longrightarrow> req_method rq = POST \<Longrightarrow> fst (preflight_bucket a w) = Inl x \<Longrightarrow>
   index sf a rq w = (Inl x, snd (preflight_bucket a w))"
  by (cases "preflight_bucket a w") (simp add: index_def)

lemma index_preflight_message:
  "g_auth_ok a \<Longrightarrow> req_method rq = POST \<Longrightarrow> fst (preflight_bucket a w) = Inr (Some m) \<Longrightarrow>
   m \<noteq> [] \<Longrightarrow>
   index sf a rq w =
     (Inr (render_template_string a None (Some (''Bucket check failed: '' @ m)) None),
      snd (preflight_bucket a w))"
  by (cases "preflight_bucket a w") (simp add: index_def)

lemma index_diag_raises:
  "g_auth_ok a \<Longrightarrow> req_method rq = POST \<Longrightarrow> fst (preflight_bucket a w) = Inr None \<Longrightarrow>
   fst (diag_put a (snd (preflight_bucket a w))) = Inl x \<Longrightarrow>
   index sf a rq w = (Inl x, snd (diag_put a (snd (preflight_bucket a w))))"
  by (cases "preflight_bucket a w"; cases "diag_put a (snd (preflight_bucket a w))")
     (simp add: index_def)

lemma index_diag_message:
  "g_auth_ok a \<Longrightarrow> req_method rq = POST \<Longrightarrow> fst (preflight_bucket a w) = Inr None \<Longrightarrow>
   fst (diag_put a (snd (preflight_bucket a w))) = Inr (Some m) \<Longrightarrow> m \<noteq> [] \<Longrightarrow>
   index sf a rq w =
     (Inr (render_template_string a None (Some (''Diagnostic PutObject failed: '' @ m)) None),
      snd (diag_put a (snd (preflight_bucket a w))))"
  by (cases "preflight_bucket a w"; cases "diag_put a (snd (preflight_bucket a w))")
     (simp add: index_def)


lemma index_no_file:
  assumes "g_auth_ok a" "req_method rq = POST"
    and "head_bucket (s3_store w) (WASABI_BUCKET a) = Inr v"
    and "put_object (s3_store w) (WASABI_BUCKET a)
           (''diag/'' @ uuid_source w (uuid_drawn w) @ ''.txt'') ''diag'' ''text/plain'' = Inr v'"
    and "req_file rq = None \<or> (\<exists>f. req_file rq = Some f \<and> filename f = [])"
  shows "index sf a rq w =
     (Inr (render_template_string a None (Some ''No file selected.'') None),
      w\<lparr>uuid_drawn := Suc (uuid_drawn w),
        s3_calls := s3_calls w @ [HeadBucket (WASABI_BUCKET a),
          PutObject (WASABI_BUCKET a) (''diag/'' @ uuid_source w (uuid_drawn w) @ ''.txt'')
            ''diag'' ''text/plain'']\<rparr>)"
  using assms by (auto simp: index_def preflight_bucket_def diag_put_def s3_defs)

lemma index_bad_name:
  assumes "g_auth_ok a" "req_method rq = POST"
    and "head_bucket (s3_store w) (WASABI_BUCKET a) = Inr v"
    and "put_object (s3_store w) (WASABI_BUCKET a)
           (''diag/'' @ uuid_source w (uuid_drawn w) @ ''.txt'') ''diag'' ''text/plain'' = Inr v'"
    and "req_file rq = Some f" "filename f \<noteq> []" "sf (filename f) = []"
  shows "index sf a rq w =
     (Inr (render_template_string a None (Some ''Invalid filename.'') None),
      w\<lparr>uuid_drawn := Suc (uuid_drawn w),
        s3_calls := s3_calls w @ [HeadBucket (WASABI_BUCKET a),
          PutObject (WASABI_BUCKET a) (''diag/'' @ uuid_source w (uuid_drawn w) @ ''.txt'')
            ''diag'' ''text/plain'']\<rparr>)"
  using assms by (simp add: index_def preflight_bucket_def diag_put_def s3_defs)

lemma index_upload:
  assumes "g_auth_ok a" "req_method rq = POST"
    and "head_bucket (s3_store w) (WASABI_BUCKET a) = Inr v"
    and "put_object (s3_store w) (WASABI_BUCKET a)
           (''diag/'' @ uuid_source w (uuid_drawn w) @ ''.txt'') ''diag'' ''text/plain'' = Inr v'"
    and "req_file rq = Some f" "filename f \<noteq> []" "sf (filename f) \<noteq> []"
    and "key = ''uploads/'' @ uuid_source w (Suc (uuid_drawn w)) @ ''_'' @ sf (filename f)"
    and "ct = (if mimetype f \<noteq> [] then mimetype f else ''application/octet-stream'')"
    and "tr = [HeadBucket (WASABI_BUCKET a),
          PutObject (WASABI_BUCKET a) (''diag/'' @ uuid_source w (uuid_drawn w) @ ''.txt'')
            ''diag'' ''text/plain'',
          PutObject (WASABI_BUCKET a) key (stream f) ct]"
  shows "index sf a rq w =
     (case put_object (s3_store w) (WASABI_BUCKET a) key (stream f) ct of
        Inl (ClientError e) \<Rightarrow>
          (Inr (render_template_string a None (Some (err_text e)) None),
           w\<lparr>uuid_drawn := Suc (Suc (uuid_drawn w)), s3_calls := s3_calls w @ tr\<rparr>)
      | Inl x \<Rightarrow> (Inl x, w\<lparr>uuid_drawn := Suc (Suc (uuid_drawn w)), s3_calls := s3_calls w @ tr\<rparr>)
      | Inr u \<Rightarrow>
         (case generate_presigned_url (s3_store w) ''get_object'' (WASABI_BUCKET a) key 3600 of
            Inl (ClientError e) \<Rightarrow>
              (Inr (render_template_string a None (Some (err_text e)) None),
               w\<lparr>uuid_drawn := Suc (Suc (uuid_drawn w)), s3_calls := s3_calls w @ tr
                  @ [GeneratePresignedUrl ''get_object'' (WASABI_BUCKET a) key 3600]\<rparr>)
          | Inl x \<Rightarrow>
              (Inl x, w\<lparr>uuid_drawn := Suc (Suc (uuid_drawn w)), s3_calls := s3_calls w @ tr
                  @ [GeneratePresignedUrl ''get_object'' (WASABI_BUCKET a) key 3600]\<rparr>)
          | Inr url_v \<Rightarrow>
              (Inr (render_template_string a (Some url_v) None None),
               w\<lparr>uuid_drawn := Suc (Suc (uuid_drawn w)), s3_calls := s3_calls w @ tr
                  @ [GeneratePresignedUrl ''get_object'' (WASABI_BUCKET a) key 3600]\<rparr>)))"
  using assms
  by (simp add: index_def preflight_bucket_def diag_put_def s3_defs Let_def
      split: sum.splits exn.splits)



lemma index_stops_at_preflight:
  assumes "g_auth_ok a" "req_method rq = POST"
    and "isl (head_bucket (s3_store w) (WASABI_BUCKET a))"
  shows "snd (index sf a rq w) = w\<lparr>s3_calls := s3_calls w @ [HeadBucket (WASABI_BUCKET a)]\<rparr>"
proof -
  from assms(3) obtain x where hb: "head_bucket (s3_store w) (WASABI_BUCKET a) = Inl x"
    by (cases "head_bucket (s3_store w) (WASABI_BUCKET a)") auto
  show ?thesis
  proof (cases "is_client_error x")
    case True
    then obtain e where "x = ClientError e" by (cases x) auto
    with hb obtain m where "m \<noteq> []" "fst (preflight_bucket a w) = Inr (Some m)"
      using preflight_client_error by blast
    then show ?thesis
      using index_preflight_message [OF assms(1,2)] by (simp add: preflight_world)
  next
    case False
    then have "fst (preflight_bucket a w) = Inl x" using hb by (rule preflight_other [rotated])
    then show ?thesis
      using index_preflight_raises [OF assms(1,2)] by (simp add: preflight_world)
  qed
qed

lemma index_stops_at_diag:
  assumes "g_auth_ok a" "req_method rq = POST"
    and "head_bucket (s3_store w) (WASABI_BUCKET a) = Inr v"
    and "isl (put_object (s3_store w) (WASABI_BUCKET a)
           (''diag/'' @ uuid_source w (uuid_drawn w) @ ''.txt'') ''diag'' ''text/plain'')"
  shows "snd (index sf a rq w) = w\<lparr>uuid_drawn := Suc (uuid_drawn w),
        s3_calls := s3_calls w @ [HeadBucket (WASABI_BUCKET a),
          PutObject (WASABI_BUCKET a) (''diag/'' @ uuid_source w (uuid_drawn w) @ ''.txt'')
            ''diag'' ''text/plain'']\<rparr>"
proof -
  let ?w1 = "snd (preflight_bucket a w)"
  have pre: "fst (preflight_bucket a w) = Inr None"
    using assms(3) by (rule preflight_returns)
  from assms(4) obtain x where dp: "put_object (s3_store ?w1) (WASABI_BUCKET a)
           (''diag/'' @ uuid_source ?w1 (uuid_drawn ?w1) @ ''.txt'') ''diag'' ''text/plain'' = Inl x"
    by (cases "put_object (s3_store w) (WASABI_BUCKET a)
           (''diag/'' @ uuid_source w (uuid_drawn w) @ ''.txt'') ''diag'' ''text/plain''")
       (auto simp: preflight_world)
  show ?thesis
  proof (cases "is_client_error x")
    case True
    then obtain e where "x = ClientError e" by (cases x) auto
    with dp have "fst (diag_put a ?w1) = Inr (Some (err_text e))"
      by (simp add: diag_put_client_error)
    then show ?thesis
      using index_diag_message [OF assms(1,2) pre, of "err_text e" sf]
      by (simp add: err_text_nonempty diag_put_world preflight_world)
  next
    case False
    then have "fst (diag_put a ?w1) = Inl x" using dp by (rule diag_put_other [rotated])
    then show ?thesis
      using index_diag_raises [OF assms(1,2) pre, of x sf]
      by (simp add: diag_put_world preflight_world)
  qed
qed

lemma set_run_until_failure: "set (run_until_failure xs) \<subseteq> fst ` set xs"
  by (induction xs rule: run_until_failure.induct) auto

lemma index_calls_invalid:
  assumes "g_auth_ok a" "req_method rq = POST"
    and "req_file rq = None \<or> (\<exists>f. req_file rq = Some f \<and> (filename f = [] \<or> sf (filename f) = []))"
    and "dk = ''diag/'' @ uuid_source w (uuid_drawn w) @ ''.txt''"
  shows "s3_calls (snd (index sf a rq w)) = s3_calls w @ run_until_failure
     [(HeadBucket (WASABI_BUCKET a), \<not> isl (head_bucket (s3_store w) (WASABI_BUCKET a))),
      (PutObject (WASABI_BUCKET a) dk ''diag'' ''text/plain'',
         \<not> isl (put_object (s3_store w) (WASABI_BUCKET a) dk ''diag'' ''text/plain''))]"
proof (cases "head_bucket (s3_store w) (WASABI_BUCKET a)")
  case (Inl x)
  then show ?thesis using index_stops_at_preflight [OF assms(1,2), of w sf] by simp
next
  case hb: (Inr v)
  show ?thesis
  proof (cases "put_object (s3_store w) (WASABI_BUCKET a) dk ''diag'' ''text/plain''")
    case (Inl x)
    then show ?thesis
      using index_stops_at_diag [OF assms(1,2) hb, of sf] hb assms(4) by simp
  next
    case dp: (Inr v')
    from assms(3) consider "req_file rq = None \<or> (\<exists>f. req_file rq = Some f \<and> filename f = [])"
      | f where "req_file rq = Some f" "filename f \<noteq> []" "sf (filename f) = []"
      by blast
    then show ?thesis
    proof cases
      case 1
      then show ?thesis
        using index_no_file [OF assms(1,2) hb dp [unfolded assms(4)], of sf] hb dp assms(4)
        by simp
    next
      case 2
      then show ?thesis
        using index_bad_name [OF assms(1,2) hb dp [unfolded assms(4)], of f sf] hb dp assms(4)
        by simp
    qed
  qed
qed

lemma index_calls_valid:
  assumes "g_auth_ok a" "req_method rq = POST"
    and "req_file rq = Some f" "filename f \<noteq> []" "sf (filename f) \<noteq> []"
    and "dk = ''diag/'' @ uuid_source w (uuid_drawn w) @ ''.txt''"
    and "key = ''uploads/'' @ uuid_source w (Suc (uuid_drawn w)) @ ''_'' @ sf (filename f)"
    and "ct = (if mimetype f \<noteq> [] then mimetype f else ''application/octet-stream'')"
  shows "s3_calls (snd (index sf a rq w)) = s3_calls w @ run_until_failure
     [(HeadBucket (WASABI_BUCKET a), \<not> isl (head_bucket (s3_store w) (WASABI_BUCKET a))),
      (PutObject (WASABI_BUCKET a) dk ''diag'' ''text/plain'',
         \<not> isl (put_object (s3_store w) (WASABI_BUCKET a) dk ''diag'' ''text/plain'')),
      (PutObject (WASABI_BUCKET a) key (stream f) ct,
         \<not> isl (put_object (s3_store w) (WASABI_BUCKET a) key (stream f) ct)),
      (GeneratePresignedUrl ''get_object'' (WASABI_BUCKET a) key 3600,
         \<not> isl (generate_presigned_url (s3_store w) ''get_object'' (WASABI_BUCKET a) key 3600))]"
proof (cases "head_bucket (s3_store w) (WASABI_BUCKET a)")
  case (Inl x)
  then show ?thesis using index_stops_at_preflight [OF assms(1,2), of w sf] by simp
next
  case hb: (Inr v)
  show ?thesis
  proof (cases "put_object (s3_store w) (WASABI_BUCKET a) dk ''diag'' ''text/plain''")
    case (Inl x)
    then show ?thesis
      using index_stops_at_diag [OF assms(1,2) hb, of sf] hb assms(6) by simp
  next
    case dp: (Inr v')
    show ?thesis
      unfolding index_upload [where sf = sf and f = f and w = w and a = a and rq = rq,
          OF assms(1,2) hb dp [unfolded assms(6)] assms(3,4,5,7,8) refl]
      using hb dp assms(6) by (simp split: sum.splits exn.splits)
  qed
qed

lemma steps_without_list_buckets:
  assumes "c = c0 @ run_until_failure xs" and "ListBuckets \<notin> fst ` set xs"
  shows "\<exists>tr. c = c0 @ tr \<and> ListBuckets \<notin> set tr"
  using assms set_run_until_failure [of xs] by blast

lemma index_never_lists_buckets:
  "\<exists>tr. s3_calls (snd (index sf a rq w)) = s3_calls w @ tr \<and> ListBuckets \<notin> set tr"
proof (cases "g_auth_ok a \<and> req_method rq = POST")
  case False
  then have "snd (index sf a rq w) = w"
    by (cases "g_auth_ok a"; cases "req_method rq") (auto simp: index_auth_failed index_get)
  then show ?thesis by simp
next
  case True
  then have ok: "g_auth_ok a" and post: "req_method rq = POST" by simp_all
  show ?thesis
  proof (cases "\<exists>f. req_file rq = Some f \<and> filename f \<noteq> [] \<and> sf (filename f) \<noteq> []")
    case True
    then obtain f where f: "req_file rq = Some f" "filename f \<noteq> []" "sf (filename f) \<noteq> []"
      by blast
    show ?thesis
      by (rule steps_without_list_buckets
          [OF index_calls_valid [where sf = sf and w = w, OF ok post f refl refl refl]]) simp
  next
    case False
    then have "req_file rq = None \<or>
        (\<exists>f. req_file rq = Some f \<and> (filename f = [] \<or> sf (filename f) = []))"
      by (cases "req_file rq") auto
    then show ?thesis
      by (rule steps_without_list_buckets
          [OF index_calls_invalid [where sf = sf and w = w, OF ok post _ refl]]) simp
  qed
qed

lemma auth_ok_world: "snd (auth_ok w) = w\<lparr>s3_calls := s3_calls w @ [ListBuckets]\<rparr>"
  by (simp add: auth_ok_def s3_defs split: sum.splits exn.splits)

lemma auth_ok_result:
  "fst (auth_ok w) =
     (case list_buckets (s3_store w) of
        Inr v \<Rightarrow> Inr (True, None)
      | Inl (ClientError e) \<Rightarrow> Inr (False, Some (err_text e))
      | Inl x \<Rightarrow> Inl x)"
  by (simp add: auth_ok_def s3_defs split: sum.splits exn.splits)

lemma module_init_missing:
  assumes "env_get environ ''WASABI_ACCESS_KEY'' True None = None
         \<or> env_get environ ''WASABI_SECRET_KEY'' True None = None
         \<or> env_get environ ''WASABI_REGION'' True None = None"
  shows "module_init environ w = (Inl (AttributeError ''strip''), w)"
  using assms
  by (auto simp: module_init_def attr_strip_def Let_def split: option.splits)

lemma module_init_missing_endpoint:
  assumes "env_get environ ''WASABI_ENDPOINT'' True None = None"
    and "\<forall>ak sk rg. boto3_session w ak sk rg = Inr ()"
  shows "module_init environ w = (Inl (AttributeError ''strip''), w)"
  using assms
  by (auto simp: module_init_def attr_strip_def Let_def split: option.splits)

lemma module_init_no_start:
  assumes "env_get environ ''WASABI_ACCESS_KEY'' True None = None
         \<or> env_get environ ''WASABI_SECRET_KEY'' True None = None
         \<or> env_get environ ''WASABI_REGION'' True None = None
         \<or> env_get environ ''WASABI_ENDPOINT'' True None = None"
  shows "\<exists>x. module_init environ w = (Inl x, w)"
  using assms
  by (auto simp: module_init_def attr_strip_def Let_def split: option.splits sum.splits)

lemma module_init_present:
  assumes "env_get environ ''WASABI_ACCESS_KEY'' True None = Some ak"
      and "env_get environ ''WASABI_SECRET_KEY'' True None = Some sk"
      and "env_get environ ''WASABI_REGION'' True None = Some rg"
      and "env_get environ ''WASABI_ENDPOINT'' True None = Some ep"
      and "boto3_session w (py_strip ak) (py_strip sk) (py_strip rg) = Inr ()"
      and "session_client w (py_strip ak) (py_strip sk) (py_strip rg) (py_strip ep) = Inr ()"
  shows "module_init environ w =
     (case fst (auth_ok w) of
        Inl x \<Rightarrow> Inl x
      | Inr (ok, err) \<Rightarrow>
          Inr \<lparr>WASABI_ACCESS_KEY = Some ak, WASABI_SECRET_KEY = Some sk,
               WASABI_REGION = Some rg, WASABI_ENDPOINT = Some ep,
               WASABI_BUCKET = env_get environ ''WASABI_BUCKET'' True None,
               s3_endpoint_host = py_strip ep, g_auth_ok = ok, g_auth_err = err\<rparr>,
      w\<lparr>s3_calls := s3_calls w @ [ListBuckets]\<rparr>)"
  using assms auth_ok_world [of w]
  by (cases "auth_ok w") (auto simp: module_init_def attr_strip_def split: sum.splits)

lemma module_init_started:
  assumes "module_init environ w0 = (Inr a, w1)"
  shows "w1 = w0\<lparr>s3_calls := s3_calls w0 @ [ListBuckets]\<rparr>
       \<and> (g_auth_ok a \<longrightarrow> g_auth_err a = None)
       \<and> (\<not> g_auth_ok a \<longrightarrow> truthy (g_auth_err a))"
proof -
  have four: "\<not> (env_get environ ''WASABI_ACCESS_KEY'' True None = None
         \<or> env_get environ ''WASABI_SECRET_KEY'' True None = None
         \<or> env_get environ ''WASABI_REGION'' True None = None
         \<or> env_get environ ''WASABI_ENDPOINT'' True None = None)"
  proof
    assume "env_get environ ''WASABI_ACCESS_KEY'' True None = None
         \<or> env_get environ ''WASABI_SECRET_KEY'' True None = None
         \<or> env_get environ ''WASABI_REGION'' True None = None
         \<or> env_get environ ''WASABI_ENDPOINT'' True None = None"
    from module_init_no_start [OF this, of w0] assms show False by auto
  qed
  then obtain ak sk rg ep where e:
    "env_get environ ''WASABI_ACCESS_KEY'' True None = Some ak"
    "env_get environ ''WASABI_SECRET_KEY'' True None = Some sk"
    "env_get environ ''WASABI_REGION'' True None = Some rg"
    "env_get environ ''WASABI_ENDPOINT'' True None = Some ep"
    by auto
  have s: "boto3_session w0 (py_strip ak) (py_strip sk) (py_strip rg) = Inr ()"
    using assms e by (auto simp: module_init_def attr_strip_def Let_def split: sum.splits)
  have c: "session_client w0 (py_strip ak) (py_strip sk) (py_strip rg) (py_strip ep) = Inr ()"
    using assms e s by (auto simp: module_init_def attr_strip_def Let_def split: sum.splits)
  from module_init_present [OF e s c] assms show ?thesis
    by (auto simp: auth_ok_result err_text_nonempty split: sum.splits exn.splits)
qed

lemma run_never_lists_buckets:
  "(r, tr) \<in> set (run sf a evs w) \<Longrightarrow> ListBuckets \<notin> set tr"
proof (induction evs arbitrary: w)
  case Nil
  then show ?case by simp
next
  case (Cons ev evs)
  obtain st rq where ev: "ev = (st, rq)" by (cases ev)
  let ?w = "w\<lparr>s3_store := st, s3_calls := []\<rparr>"
  obtain tr0 where tr0: "s3_calls (snd (index sf a rq ?w)) = s3_calls ?w @ tr0"
      "ListBuckets \<notin> set tr0"
    using index_never_lists_buckets by blast
  obtain r0 w' where ix: "index sf a rq ?w = (r0, w')" by (cases "index sf a rq ?w")
  from Cons.prems ev ix have "tr = s3_calls w' \<or> (r, tr) \<in> set (run sf a evs w')"
    by auto
  then show ?case
  proof
    assume "tr = s3_calls w'"
    with tr0 ix show ?thesis by simp
  next
    assume "(r, tr) \<in> set (run sf a evs w')"
    then show ?thesis by (rule Cons.IH)
  qed
qed

lemma run_auth_failed:
  "\<not> g_auth_ok a \<Longrightarrow>
   run sf a evs w = map (\<lambda>ev. (Inr (render_template_string a None None (g_auth_err a)), [])) evs"
  by (induction evs arbitrary: w) (auto simp: index_auth_failed)

lemmas model_defs = index_def preflight_bucket_def diag_put_def s3_defs
  render_template_string_def err_text_def Let_def

lemmas input_defs = fresh_world_def ok_store_def read_only_store_def no_bucket_store_def
  forbidden_store_def moved_store_def busy_store_def cut_off_store_def
  unreachable_store_def bad_keys_store_def ready_app_def locked_out_app_def
  report_upload_def plain_get_def empty_form_def nameless_upload_def unusable_name_upload_def
  valid_bucket_name_def bucket_name_char_def keep_safe_chars_def two_uuids_def full_environ_def blank_region_environ_def
  no_endpoint_environ_def bare_host_environ_def

lemma index_post_starts_with_head_bucket:
  assumes "g_auth_ok a" "req_method rq = POST"
  shows "\<exists>rest. s3_calls (snd (index sf a rq w)) = s3_calls w @ HeadBucket (WASABI_BUCKET a) # rest
           \<and> (isl (head_bucket (s3_store w) (WASABI_BUCKET a)) \<longrightarrow> rest = [])"
proof (cases "\<exists>f. req_file rq = Some f \<and> filename f \<noteq> [] \<and> sf (filename f) \<noteq> []")
  case True
  then obtain f where f: "req_file rq = Some f" "filename f \<noteq> []" "sf (filename f) \<noteq> []"
    by blast
  show ?thesis
    unfolding index_calls_valid [where sf = sf and w = w, OF assms f refl refl refl]
    by simp
next
  case False
  then have inv: "req_file rq = None \<or>
      (\<exists>f. req_file rq = Some f \<and> (filename f = [] \<or> sf (filename f) = []))"
    by (cases "req_file rq") auto
  show ?thesis
    unfolding index_calls_invalid [where sf = sf and w = w, OF assms inv refl]
    by simp
qed

lemma run_checks_bucket_afresh:
  assumes "g_auth_ok a"
  shows "list_all2
     (\<lambda>(st, rq) (r, tr). req_method rq = POST \<longrightarrow>
        (\<exists>rest. tr = HeadBucket (WASABI_BUCKET a) # rest
           \<and> (isl (head_bucket st (WASABI_BUCKET a)) \<longrightarrow> rest = [])))
     evs (run sf a evs w)"
proof (induction evs arbitrary: w)
  case Nil
  show ?case by simp
next
  case (Cons ev evs)
  obtain st rq where ev: "ev = (st, rq)" by (cases ev)
  let ?w = "w\<lparr>s3_store := st, s3_calls := []\<rparr>"
  obtain r0 w' where ix: "index sf a rq ?w = (r0, w')" by (cases "index sf a rq ?w")
  have "req_method rq = POST \<longrightarrow>
        (\<exists>rest. s3_calls w' = HeadBucket (WASABI_BUCKET a) # rest
           \<and> (isl (head_bucket st (WASABI_BUCKET a)) \<longrightarrow> rest = []))"
    using index_post_starts_with_head_bucket [OF assms, of rq sf ?w] ix by simp
  then show ?case using ev ix Cons.IH by simp
qed

lemma report_upload_served:
  "index keep_safe_chars ready_app report_upload (fresh_world ok_store) =
      (Inr (render_template_string ready_app
         (Some ''https://s3.example/uploads/6fa459ea-ee8a-4ca4-894e-db77e160355e_report.txt?sig'')
         None None),
       (fresh_world ok_store)\<lparr>uuid_drawn := 2, s3_calls :=
       [HeadBucket (Some ''my-bucket''),
        PutObject (Some ''my-bucket'') ''diag/1b4e28ba-2fa1-41d2-883f-0016d3cca427.txt''
          ''diag'' ''text/plain'',
        PutObject (Some ''my-bucket'')
          ''uploads/6fa459ea-ee8a-4ca4-894e-db77e160355e_report.txt'' ''hello''
          ''application/octet-stream'',
        GeneratePresignedUrl ''get_object'' (Some ''my-bucket'')
          ''uploads/6fa459ea-ee8a-4ca4-894e-db77e160355e_report.txt'' 3600]\<rparr>)"
  by (simp add: model_defs input_defs)

lemma empty_form_served:
  "index keep_safe_chars ready_app empty_form (fresh_world ok_store) =
     (Inr (render_template_string ready_app None (Some ''No file selected.'') None),
      (fresh_world ok_store)\<lparr>uuid_drawn := 1, s3_calls :=
        [HeadBucket (Some ''my-bucket''),
         PutObject (Some ''my-bucket'') ''diag/1b4e28ba-2fa1-41d2-883f-0016d3cca427.txt''
           ''diag'' ''text/plain'']\<rparr>)"
  by (simp add: model_defs input_defs)

lemma nameless_upload_served:
  "index keep_safe_chars ready_app nameless_upload (fresh_world ok_store) =
     (Inr (render_template_string ready_app None (Some ''No file selected.'') None),
      (fresh_world ok_store)\<lparr>uuid_drawn := 1, s3_calls :=
        [HeadBucket (Some ''my-bucket''),
         PutObject (Some ''my-bucket'') ''diag/1b4e28ba-2fa1-41d2-883f-0016d3cca427.txt''
           ''diag'' ''text/plain'']\<rparr>)"
  by (simp add: model_defs input_defs)

lemma unusable_name_upload_served:
  "index keep_safe_chars ready_app unusable_name_upload (fresh_world ok_store) =
     (Inr (render_template_string ready_app None (Some ''Invalid filename.'') None),
      (fresh_world ok_store)\<lparr>uuid_drawn := 1, s3_calls :=
        [HeadBucket (Some ''my-bucket''),
         PutObject (Some ''my-bucket'') ''diag/1b4e28ba-2fa1-41d2-883f-0016d3cca427.txt''
           ''diag'' ''text/plain'']\<rparr>)"
  by (simp add: model_defs input_defs)

lemma env_get_absent_or_blank:
  "env_get environ k True None = None \<longleftrightarrow>
     (environ k = None \<or> (\<exists>v. environ k = Some v \<and> py_strip v = []))"
  by (auto simp: env_get_def Let_def split: option.splits)

lemma module_init_full:
  "module_init full_environ (fresh_world ok_store) =
     (Inr ready_app, (fresh_world ok_store)\<lparr>s3_calls := [ListBuckets]\<rparr>)"
  by (simp add: module_init_def full_environ_def fresh_world_def ok_store_def
      env_get_def py_strip_def py_isspace_def attr_strip_def auth_ok_def s3_list_buckets_def
      ready_app_def)

lemma module_init_bare_host:
  "module_init bare_host_environ (fresh_world ok_store) =
     (Inl (OtherError ''ValueError''), fresh_world ok_store)"
  by (simp add: module_init_def bare_host_environ_def full_environ_def fresh_world_def
      env_get_def py_strip_def py_isspace_def attr_strip_def)

lemma returns_or_client_error_cases:
  assumes "returns_or_client_error r"
  obtains v where "r = Inr v" | e where "r = Inl (ClientError e)"
proof (cases r)
  case (Inl x)
  with assms obtain e where "x = ClientError e"
    by (cases x) (auto simp: returns_or_client_error_def)
  with Inl that show ?thesis by blast
next
  case (Inr v)
  with that show ?thesis by blast
qed

lemma unreachable_store_served:
  "index keep_safe_chars ready_app report_upload (fresh_world unreachable_store) =
     (Inl (OtherError ''EndpointConnectionError''),
      (fresh_world unreachable_store)\<lparr>s3_calls := [HeadBucket (Some ''my-bucket'')]\<rparr>)"
  by (simp add: model_defs input_defs)

lemma read_only_store_served:
  "index keep_safe_chars ready_app report_upload (fresh_world read_only_store) =
     (Inr (render_template_string ready_app None
        (Some ''Diagnostic PutObject failed: ReadOnly: Writes are disabled'') None),
      (fresh_world read_only_store)\<lparr>uuid_drawn := 1, s3_calls :=
        [HeadBucket (Some ''my-bucket''),
         PutObject (Some ''my-bucket'') ''diag/1b4e28ba-2fa1-41d2-883f-0016d3cca427.txt''
           ''diag'' ''text/plain'']\<rparr>)"
  by (simp add: model_defs input_defs)

lemma repr_char_keeps: "repr_keeps c \<Longrightarrow> repr_char (CHR 0x27) c = [c]"
  by (auto simp: repr_keeps_def repr_char_def py_isprintable_def)

lemma py_repr_plain:
  assumes "\<forall>c \<in> set s. repr_keeps c"
  shows "py_repr (Some s) = [CHR 0x27] @ s @ [CHR 0x27]"
proof -
  have q: "repr_quote s = CHR 0x27"
    using assms by (auto simp: repr_quote_def repr_keeps_def)
  have "concat (map (repr_char (CHR 0x27)) s) = s"
    using assms by (induction s) (simp_all add: repr_char_keeps)
  with q show ?thesis by (simp add: Let_def)
qed

lemma bucket_name_char_repr_keeps: "bucket_name_char c \<Longrightarrow> repr_keeps c"
  by (auto simp: bucket_name_char_def repr_keeps_def py_isprintable_def Let_def)

lemma valid_bucket_name_repr_keeps: "valid_bucket_name s \<Longrightarrow> \<forall>c \<in> set s. repr_keeps c"
  by (simp add: valid_bucket_name_def list_all_iff bucket_name_char_repr_keeps)

lemma preflight_client_error_message:
  "head_bucket (s3_store w) (WASABI_BUCKET a) = Inl (ClientError e) \<Longrightarrow>
   fst (preflight_bucket a w) =
     Inr (Some
       (if py_in ''NoSuchBucket'' (err_text e) \<or> py_in ''404'' (err_text e) then
          ''Bucket not found. Check spelling and region. ''
            @ ''(bucket='' @ py_repr (WASABI_BUCKET a)
            @ '', region='' @ py_str (WASABI_REGION a)
            @ '', endpoint='' @ py_str (WASABI_ENDPOINT a) @ '')''
        else if py_in ''AccessDenied'' (err_text e) \<or> py_in ''403'' (err_text e) then
          ''Access denied to bucket. Keys must belong to same Wasabi account ''
            @ ''and have s3:ListBucket & s3:PutObject.''
        else if py_in ''AuthorizationHeaderMalformed'' (err_text e) \<or> py_in ''301'' (err_text e)
        then
          ''Region mismatch. Set WASABI_REGION to the bucket'' @ [CHR 0x27] @ ''s region ''
            @ ''and use endpoint https://s3.<region>.wasabisys.com''
        else err_text e))"
  by (simp add: preflight_bucket_def s3_defs Let_def)

lemma no_bucket_preflight:
  "fst (preflight_bucket ready_app (fresh_world no_bucket_store)) =
     Inr (Some (''Bucket not found. Check spelling and region. (bucket='' @ [CHR 0x27]
        @ ''my-bucket'' @ [CHR 0x27]
        @ '', region=us-east-1, endpoint=https://s3.wasabisys.com)''))"
  by (simp add: preflight_bucket_def s3_defs err_text_def input_defs repr_quote_def
      repr_char_def py_isprintable_def Let_def)

lemma module_init_bad_keys:
  "module_init full_environ (fresh_world bad_keys_store) =
     (Inr locked_out_app, (fresh_world bad_keys_store)\<lparr>s3_calls := [ListBuckets]\<rparr>)"
  by (simp add: module_init_def full_environ_def fresh_world_def bad_keys_store_def ok_store_def
      env_get_def py_strip_def py_isspace_def attr_strip_def auth_ok_def s3_list_buckets_def
      ready_app_def locked_out_app_def err_text_def)

lemma index_yields_page:
  "((\<forall>b. returns_or_client_error (head_bucket (s3_store w) b))
      \<and> (\<forall>b k body ct. returns_or_client_error (put_object (s3_store w) b k body ct))
      \<and> (\<forall>m b k n. returns_or_client_error (generate_presigned_url (s3_store w) m b k n))
      \<longrightarrow> (\<exists>p. fst (index sf a rq w) = Inr p
             \<and> (\<not> g_auth_ok a \<longrightarrow> startup_error p = g_auth_err a)
             \<and> (g_auth_ok a \<and> req_method rq = POST \<and> url p = None \<longrightarrow> truthy (error p))))
   \<and> (\<forall>x. g_auth_ok a \<and> req_method rq = POST \<and> \<not> is_client_error x
          \<and> head_bucket (s3_store w) (WASABI_BUCKET a) = Inl x
        \<longrightarrow> fst (index sf a rq w) = Inl x)"
proof (intro conjI impI allI)
  fix x
  assume "g_auth_ok a \<and> req_method rq = POST \<and> \<not> is_client_error x
          \<and> head_bucket (s3_store w) (WASABI_BUCKET a) = Inl x"
  then show "fst (index sf a rq w) = Inl x"
    using index_preflight_raises [of a rq w x sf] preflight_other [of w a x] by simp
next
  assume st: "(\<forall>b. returns_or_client_error (head_bucket (s3_store w) b))
      \<and> (\<forall>b k body ct. returns_or_client_error (put_object (s3_store w) b k body ct))
      \<and> (\<forall>m b k n. returns_or_client_error (generate_presigned_url (s3_store w) m b k n))"
  let ?goal = "\<exists>p. fst (index sf a rq w) = Inr p
             \<and> (\<not> g_auth_ok a \<longrightarrow> startup_error p = g_auth_err a)
             \<and> (g_auth_ok a \<and> req_method rq = POST \<and> url p = None \<longrightarrow> truthy (error p))"
  let ?dk = "''diag/'' @ uuid_source w (uuid_drawn w) @ ''.txt''"
  show ?goal
  proof (cases "g_auth_ok a")
    case False
    then show ?thesis by (simp add: index_auth_failed render_template_string_def)
  next
    case auth: True
    show ?thesis
    proof (cases "req_method rq = POST")
      case False
      with auth show ?thesis by (simp add: index_get)
    next
      case POST: True
      from st have "returns_or_client_error (head_bucket (s3_store w) (WASABI_BUCKET a))"
        by blast
      then show ?thesis
      proof (cases rule: returns_or_client_error_cases)
        case (2 e)
        then obtain m where "m \<noteq> []" "fst (preflight_bucket a w) = Inr (Some m)"
          using preflight_client_error by blast
        then show ?thesis
          using index_preflight_message [OF auth POST, of w m sf]
          by (simp add: auth render_template_string_def)
      next
        case hb: (1 v)
        from st have "returns_or_client_error
            (put_object (s3_store w) (WASABI_BUCKET a) ?dk ''diag'' ''text/plain'')"
          by blast
        then show ?thesis
        proof (cases rule: returns_or_client_error_cases)
          case (2 e)
          have pre: "fst (preflight_bucket a w) = Inr None"
            using hb by (rule preflight_returns)
          have "fst (diag_put a (snd (preflight_bucket a w))) = Inr (Some (err_text e))"
            using 2 by (intro diag_put_client_error) (simp add: preflight_world)
          then show ?thesis
            using index_diag_message [OF auth POST pre, of "err_text e" sf]
            by (simp add: auth err_text_nonempty render_template_string_def)
        next
          case dp: (1 v')
          show ?thesis
          proof (cases "\<exists>f. req_file rq = Some f \<and> filename f \<noteq> [] \<and> sf (filename f) \<noteq> []")
            case False
            then consider
                "req_file rq = None \<or> (\<exists>f. req_file rq = Some f \<and> filename f = [])"
              | f where "req_file rq = Some f" "filename f \<noteq> []" "sf (filename f) = []"
              by (cases "req_file rq") auto
            then show ?thesis
            proof cases
              case 1
              then show ?thesis
                using index_no_file [OF auth POST hb dp, of sf]
                by (simp add: auth render_template_string_def)
            next
              case 2
              then show ?thesis
                using index_bad_name [OF auth POST hb dp, of f sf]
                by (simp add: auth render_template_string_def)
            qed
          next
            case True
            then obtain f where f: "req_file rq = Some f" "filename f \<noteq> []"
                "sf (filename f) \<noteq> []"
              by blast
            let ?key = "''uploads/'' @ uuid_source w (Suc (uuid_drawn w)) @ ''_'' @ sf (filename f)"
            let ?ct = "if mimetype f \<noteq> [] then mimetype f else ''application/octet-stream''"
            note up = index_upload [where sf = sf and f = f and w = w and a = a and rq = rq,
                OF auth POST hb dp f refl refl refl]
            from st have "returns_or_client_error
                (put_object (s3_store w) (WASABI_BUCKET a) ?key (stream f) ?ct)"
              by blast
            then show ?thesis
            proof (cases rule: returns_or_client_error_cases)
              case (2 e)
              then show ?thesis unfolding up
                by (simp add: auth err_text_nonempty render_template_string_def)
            next
              case po: (1 v'')
              from st have "returns_or_client_error
                  (generate_presigned_url (s3_store w) ''get_object'' (WASABI_BUCKET a) ?key 3600)"
                by blast
              then show ?thesis
              proof (cases rule: returns_or_client_error_cases)
                case (2 e)
                then show ?thesis unfolding up using po
                  by (simp add: auth err_text_nonempty render_template_string_def)
              next
                case (1 u)
                then show ?thesis unfolding up using po
                  by (simp add: auth render_template_string_def)
              qed
            qed
          qed
        qed
      qed
    qed
  qed
qed

lemma module_init_auth_failed:
  assumes "module_init environ w0 = (Inr a, w1)"
    and "list_buckets (s3_store w0) = Inl (ClientError e)"
  shows "\<not> g_auth_ok a \<and> g_auth_err a = Some (err_text e)"
proof -
  have four: "\<not> (env_get environ ''WASABI_ACCESS_KEY'' True None = None
         \<or> env_get environ ''WASABI_SECRET_KEY'' True None = None
         \<or> env_get environ ''WASABI_REGION'' True None = None
         \<or> env_get environ ''WASABI_ENDPOINT'' True None = None)"
  proof
    assume "env_get environ ''WASABI_ACCESS_KEY'' True None = None
         \<or> env_get environ ''WASABI_SECRET_KEY'' True None = None
         \<or> env_get environ ''WASABI_REGION'' True None = None
         \<or> env_get environ ''WASABI_ENDPOINT'' True None = None"
    from module_init_no_start [OF this, of w0] assms(1) show False by auto
  qed
  then obtain ak sk rg ep where e:
    "env_get environ ''WASABI_ACCESS_KEY'' True None = Some ak"
    "env_get environ ''WASABI_SECRET_KEY'' True None = Some sk"
    "env_get environ ''WASABI_REGION'' True None = Some rg"
    "env_get environ ''WASABI_ENDPOINT'' True None = Some ep"
    by auto
  have s: "boto3_session w0 (py_strip ak) (py_strip sk) (py_strip rg) = Inr ()"
    using assms(1) e by (auto simp: module_init_def attr_strip_def Let_def split: sum.splits)
  have c: "session_client w0 (py_strip ak) (py_strip sk) (py_strip rg) (py_strip ep) = Inr ()"
    using assms(1) e s by (auto simp: module_init_def attr_strip_def Let_def split: sum.splits)
  from module_init_present [OF e s c] assms show ?thesis
    by (auto simp: auth_ok_result)
qed

lemma index_head_client_error:
  assumes "g_auth_ok a" "req_method rq = POST"
    and "head_bucket (s3_store w) (WASABI_BUCKET a) = Inl (ClientError e)"
  shows "\<exists>m. m \<noteq> [] \<and> fst (preflight_bucket a w) = Inr (Some m)
           \<and> fst (index sf a rq w) =
               Inr (render_template_string a None (Some (''Bucket check failed: '' @ m)) None)"
proof -
  obtain m where m: "m \<noteq> []" "fst (preflight_bucket a w) = Inr (Some m)"
    using preflight_client_error [OF assms(3)] by blast
  show ?thesis
    using index_preflight_message [OF assms(1,2) m(2,1), of sf] m by simp
qed

lemma index_head_other:
  assumes "g_auth_ok a" "req_method rq = POST"
    and "head_bucket (s3_store w) (WASABI_BUCKET a) = Inl x" "\<not> is_client_error x"
  shows "fst (index sf a rq w) = Inl x"
  using index_preflight_raises [OF assms(1,2) preflight_other [OF assms(3,4)], of sf] by simp

lemma index_diag_client_error:
  assumes "g_auth_ok a" "req_method rq = POST"
    and "head_bucket (s3_store w) (WASABI_BUCKET a) = Inr v"
    and "put_object (s3_store w) (WASABI_BUCKET a)
           (''diag/'' @ uuid_source w (uuid_drawn w) @ ''.txt'') ''diag'' ''text/plain''
         = Inl (ClientError e)"
  shows "fst (index sf a rq w) =
           Inr (render_template_string a None
             (Some (''Diagnostic PutObject failed: '' @ err_text e)) None)"
proof -
  have pre: "fst (preflight_bucket a w) = Inr None"
    using assms(3) by (rule preflight_returns)
  have "fst (diag_put a (snd (preflight_bucket a w))) = Inr (Some (err_text e))"
    using assms(4) by (intro diag_put_client_error) (simp add: preflight_world)
  then show ?thesis
    using index_diag_message [OF assms(1,2) pre, of "err_text e" sf]
    by (simp add: err_text_nonempty)
qed

lemma index_diag_other:
  assumes "g_auth_ok a" "req_method rq = POST"
    and "head_bucket (s3_store w) (WASABI_BUCKET a) = Inr v"
    and "put_object (s3_store w) (WASABI_BUCKET a)
           (''diag/'' @ uuid_source w (uuid_drawn w) @ ''.txt'') ''diag'' ''text/plain'' = Inl x"
    and "\<not> is_client_error x"
  shows "fst (index sf a rq w) = Inl x"
proof -
  have pre: "fst (preflight_bucket a w) = Inr None"
    using assms(3) by (rule preflight_returns)
  have "fst (diag_put a (snd (preflight_bucket a w))) = Inl x"
    using assms(4) by (intro diag_put_other assms(5)) (simp add: preflight_world)
  then show ?thesis
    using index_diag_raises [OF assms(1,2) pre, of x sf] by simp
qed

lemma index_upload_outcome:
  assumes "g_auth_ok a" "req_method rq = POST"
    and "head_bucket (s3_store w) (WASABI_BUCKET a) = Inr v"
    and "put_object (s3_store w) (WASABI_BUCKET a)
           (''diag/'' @ uuid_source w (uuid_drawn w) @ ''.txt'') ''diag'' ''text/plain'' = Inr v'"
    and "req_file rq = Some f" "filename f \<noteq> []" "sf (filename f) \<noteq> []"
    and "key = ''uploads/'' @ uuid_source w (Suc (uuid_drawn w)) @ ''_'' @ sf (filename f)"
    and "ct = (if mimetype f \<noteq> [] then mimetype f else ''application/octet-stream'')"
  shows "fst (index sf a rq w) =
     (case put_object (s3_store w) (WASABI_BUCKET a) key (stream f) ct of
        Inl (ClientError e) \<Rightarrow> Inr (render_template_string a None (Some (err_text e)) None)
      | Inl x \<Rightarrow> Inl x
      | Inr u \<Rightarrow>
         (case generate_presigned_url (s3_store w) ''get_object'' (WASABI_BUCKET a) key 3600 of
            Inl (ClientError e) \<Rightarrow> Inr (render_template_string a None (Some (err_text e)) None)
          | Inl x \<Rightarrow> Inl x
          | Inr url_v \<Rightarrow> Inr (render_template_string a (Some url_v) None None)))"
  unfolding index_upload [where sf = sf and f = f and w = w and a = a and rq = rq,
      OF assms refl]
  by (simp split: sum.splits exn.splits)

lemma is_client_error_cases:
  "\<not> is_client_error x \<Longrightarrow> (\<exists>s. x = AttributeError s) \<or> (\<exists>s. x = OtherError s)"
  by (cases x) simp_all

section \<open>The claims\<close>

subsection \<open>The diagnostic write\<close>

text \<open>
  Claim C9, as stated, fails in its last part: \<open>diag_put\<close> catches \<open>ClientError\<close>
  only. When the put fails with another exception, here a closed connection, the
  function returns nothing: the exception leaves it.
\<close>

theorem diag_put_raises_counterexample:
  "put_object (s3_store (fresh_world cut_off_store)) (WASABI_BUCKET ready_app)
      ''diag/1b4e28ba-2fa1-41d2-883f-0016d3cca427.txt'' ''diag'' ''text/plain''
      = Inl (OtherError ''ConnectionClosedError'')
   \<and> fst (diag_put ready_app (fresh_world cut_off_store)) =
       Inl (OtherError ''ConnectionClosedError'')"
  by (simp add: diag_put_def s3_defs fresh_world_def cut_off_store_def ok_store_def
      ready_app_def two_uuids_def)

text \<open>
  Claim C9, amended. \<open>diag_put\<close> makes exactly one call on the store: a put of the
  four bytes \<open>diag\<close>, content type \<open>text/plain\<close>, under the key \<open>diag/<uuid>.txt\<close>
  whose identifier is drawn from the random source by this very call. The key lies under
  \<open>diag/\<close> and not under \<open>uploads/\<close>, and no key of the form
  \<open>uploads/<uuid>_<name>\<close> lies under \<open>diag/\<close>. Apart from the log entry and the
  advanced random source the world is unchanged: the object is neither recorded nor
  deleted. The function returns \<open>None\<close> when the put returns, and the text
  \<open>code: message\<close> of the store's error, unchanged, when the put raises a
  \<open>ClientError\<close>; an exception of any other class raised by the put is not caught and
  leaves the function.
\<close>

theorem diag_put_contract:
  assumes "k = ''diag/'' @ uuid_source w (uuid_drawn w) @ ''.txt''"
    and "r = put_object (s3_store w) (WASABI_BUCKET a) k ''diag'' ''text/plain''"
  shows "snd (diag_put a w) =
           w\<lparr>uuid_drawn := Suc (uuid_drawn w),
             s3_calls := s3_calls w @ [PutObject (WASABI_BUCKET a) k ''diag'' ''text/plain'']\<rparr>
       \<and> prefix ''diag/'' k \<and> \<not> prefix ''uploads/'' k
       \<and> (\<forall>u n. \<not> prefix ''diag/'' (''uploads/'' @ u @ ''_'' @ n))
       \<and> (r = Inr () \<longrightarrow> fst (diag_put a w) = Inr None)
       \<and> (\<forall>e. r = Inl (ClientError e) \<longrightarrow> fst (diag_put a w) = Inr (Some (err_text e)))
       \<and> (\<forall>x. r = Inl x \<and> \<not> is_client_error x \<longrightarrow> fst (diag_put a w) = Inl x)"
  using assms
  by (simp add: diag_put_world diag_put_returns diag_put_client_error diag_put_other)

theorem diag_put_contract_witness:
  "put_object (s3_store (fresh_world ok_store)) (WASABI_BUCKET ready_app)
      ''diag/1b4e28ba-2fa1-41d2-883f-0016d3cca427.txt'' ''diag'' ''text/plain'' = Inr ()
   \<and> fst (diag_put ready_app (fresh_world ok_store)) = Inr None
   \<and> s3_calls (snd (diag_put ready_app (fresh_world ok_store))) =
       [PutObject (Some ''my-bucket'') ''diag/1b4e28ba-2fa1-41d2-883f-0016d3cca427.txt''
          ''diag'' ''text/plain'']
   \<and> put_object (s3_store (fresh_world read_only_store)) (WASABI_BUCKET ready_app)
      ''diag/1b4e28ba-2fa1-41d2-883f-0016d3cca427.txt'' ''diag'' ''text/plain''
      = Inl (ClientError \<lparr>Code = Some ''ReadOnly'', Message = Some ''Writes are disabled''\<rparr>)
   \<and> fst (diag_put ready_app (fresh_world read_only_store)) =
       Inr (Some ''ReadOnly: Writes are disabled'')
   \<and> \<not> is_client_error (OtherError ''ConnectionClosedError'')
   \<and> fst (diag_put ready_app (fresh_world cut_off_store)) =
       Inl (OtherError ''ConnectionClosedError'')"
  using diag_put_contract [of "''diag/1b4e28ba-2fa1-41d2-883f-0016d3cca427.txt''"
      "fresh_world ok_store" _ ready_app, OF _ refl]
    diag_put_contract [of "''diag/1b4e28ba-2fa1-41d2-883f-0016d3cca427.txt''"
      "fresh_world read_only_store" _ ready_app, OF _ refl]
    diag_put_contract [of "''diag/1b4e28ba-2fa1-41d2-883f-0016d3cca427.txt''"
      "fresh_world cut_off_store" _ ready_app, OF _ refl]
  by (simp add: fresh_world_def ok_store_def read_only_store_def cut_off_store_def
      ready_app_def two_uuids_def err_text_def)

subsection \<open>The startup authentication result\<close>

text \<open>
  Claim C7. When module initialisation completes, it has called list-buckets exactly
  once, and the result sits in the module's globals, which the handler only reads: no
  request served afterwards calls list-buckets again. Whenever the stored result is
  false, the stored error text is non-empty, so the page shows the startup error; every
  request, GET or POST, is answered with that page, with no URL and no other error, and
  leaves the world as it was: no store call and no random draw is made for it.
\<close>

theorem startup_auth_cached:
  assumes "module_init environ w0 = (Inr a, w1)"
  shows "s3_calls w1 = s3_calls w0 @ [ListBuckets]
       \<and> (\<forall>evs w. \<forall>(r, tr) \<in> set (run sf a evs w). ListBuckets \<notin> set tr)
       \<and> (\<not> g_auth_ok a \<longrightarrow>
            truthy (g_auth_err a)
          \<and> (\<forall>rq w. index sf a rq w =
                (Inr (render_template_string a None None (g_auth_err a)), w))
          \<and> (\<forall>evs w. run sf a evs w =
                map (\<lambda>ev. (Inr (render_template_string a None None (g_auth_err a)), [])) evs))"
  using module_init_started [OF assms] run_never_lists_buckets [of _ _ sf a]
    run_auth_failed [of a sf] index_auth_failed [of a sf]
  by auto

theorem startup_auth_cached_witness:
  "module_init full_environ (fresh_world bad_keys_store) =
     (Inr locked_out_app, (fresh_world bad_keys_store)\<lparr>s3_calls := [ListBuckets]\<rparr>)
   \<and> \<not> g_auth_ok locked_out_app
   \<and> run keep_safe_chars locked_out_app [(ok_store, plain_get), (ok_store, report_upload)]
        ((fresh_world bad_keys_store)\<lparr>s3_calls := [ListBuckets]\<rparr>) =
      [(Inr (render_template_string locked_out_app None None
           (Some ''InvalidAccessKeyId: The access key does not exist'')), []),
       (Inr (render_template_string locked_out_app None None
           (Some ''InvalidAccessKeyId: The access key does not exist'')), [])]"
  using startup_auth_cached [OF module_init_bad_keys, of keep_safe_chars]
  by (simp add: module_init_bad_keys locked_out_app_def)

subsection \<open>The order of the steps\<close>

text \<open>
  Claim C8. With startup authentication passed, a POST request carries out the script
  head-bucket, diagnostic put, real put, presign, in this order, up to and including
  the first step that fails (by any exception): the calls it logs are exactly
  \<open>run_until_failure\<close> of that script. When the form has no usable file the script
  is head-bucket, diagnostic put. Nothing is kept from one request to the next: in any
  sequence of requests, each with the store as it answers at that moment, every POST
  begins with a head-bucket call, and when that call fails the request makes no other
  call, whatever earlier requests saw.
\<close>

theorem request_steps_in_order:
  assumes "g_auth_ok a" and "req_method rq = POST"
    and "b = WASABI_BUCKET a"
    and "dk = ''diag/'' @ uuid_source w (uuid_drawn w) @ ''.txt''"
  shows "(\<forall>f key ct.
            req_file rq = Some f \<and> filename f \<noteq> [] \<and> sf (filename f) \<noteq> []
          \<and> key = ''uploads/'' @ uuid_source w (Suc (uuid_drawn w)) @ ''_'' @ sf (filename f)
          \<and> ct = (if mimetype f \<noteq> [] then mimetype f else ''application/octet-stream'')
          \<longrightarrow> s3_calls (snd (index sf a rq w)) = s3_calls w @ run_until_failure
               [(HeadBucket b, \<not> isl (head_bucket (s3_store w) b)),
                (PutObject b dk ''diag'' ''text/plain'',
                   \<not> isl (put_object (s3_store w) b dk ''diag'' ''text/plain'')),
                (PutObject b key (stream f) ct,
                   \<not> isl (put_object (s3_store w) b key (stream f) ct)),
                (GeneratePresignedUrl ''get_object'' b key 3600,
                   \<not> isl (generate_presigned_url (s3_store w) ''get_object'' b key 3600))])
       \<and> (req_file rq = None
            \<or> (\<exists>f. req_file rq = Some f \<and> (filename f = [] \<or> sf (filename f) = []))
          \<longrightarrow> s3_calls (snd (index sf a rq w)) = s3_calls w @ run_until_failure
               [(HeadBucket b, \<not> isl (head_bucket (s3_store w) b)),
                (PutObject b dk ''diag'' ''text/plain'',
                   \<not> isl (put_object (s3_store w) b dk ''diag'' ''text/plain''))])
       \<and> (\<forall>evs w0. list_all2
             (\<lambda>(st, rq') (r, tr). req_method rq' = POST \<longrightarrow>
                (\<exists>rest. tr = HeadBucket b # rest \<and> (isl (head_bucket st b) \<longrightarrow> rest = [])))
             evs (run sf a evs w0))"
proof (intro conjI allI impI)
  fix f key ct
  assume "req_file rq = Some f \<and> filename f \<noteq> [] \<and> sf (filename f) \<noteq> []
          \<and> key = ''uploads/'' @ uuid_source w (Suc (uuid_drawn w)) @ ''_'' @ sf (filename f)
          \<and> ct = (if mimetype f \<noteq> [] then mimetype f else ''application/octet-stream'')"
  then show "s3_calls (snd (index sf a rq w)) = s3_calls w @ run_until_failure
               [(HeadBucket b, \<not> isl (head_bucket (s3_store w) b)),
                (PutObject b dk ''diag'' ''text/plain'',
                   \<not> isl (put_object (s3_store w) b dk ''diag'' ''text/plain'')),
                (PutObject b key (stream f) ct,
                   \<not> isl (put_object (s3_store w) b key (stream f) ct)),
                (GeneratePresignedUrl ''get_object'' b key 3600,
                   \<not> isl (generate_presigned_url (s3_store w) ''get_object'' b key 3600))]"
    using index_calls_valid [where sf = sf and w = w and f = f, OF assms(1,2) _ _ _ assms(4)]
      assms(3) by blast
next
  assume "req_file rq = None
            \<or> (\<exists>f. req_file rq = Some f \<and> (filename f = [] \<or> sf (filename f) = []))"
  then show "s3_calls (snd (index sf a rq w)) = s3_calls w @ run_until_failure
               [(HeadBucket b, \<not> isl (head_bucket (s3_store w) b)),
                (PutObject b dk ''diag'' ''text/plain'',
                   \<not> isl (put_object (s3_store w) b dk ''diag'' ''text/plain''))]"
    using index_calls_invalid [where sf = sf and w = w, OF assms(1,2) _ assms(4)] assms(3)
    by blast
next
  fix evs w0
  show "list_all2
             (\<lambda>(st, rq') (r, tr). req_method rq' = POST \<longrightarrow>
                (\<exists>rest. tr = HeadBucket b # rest \<and> (isl (head_bucket st b) \<longrightarrow> rest = [])))
             evs (run sf a evs w0)"
    unfolding assms(3) by (rule run_checks_bucket_afresh [OF assms(1)])
qed


theorem request_steps_in_order_witness:
  "g_auth_ok ready_app \<and> req_method report_upload = POST
   \<and> s3_calls (snd (index keep_safe_chars ready_app report_upload (fresh_world ok_store))) =
       [HeadBucket (Some ''my-bucket''),
        PutObject (Some ''my-bucket'') ''diag/1b4e28ba-2fa1-41d2-883f-0016d3cca427.txt''
          ''diag'' ''text/plain'',
        PutObject (Some ''my-bucket'')
          ''uploads/6fa459ea-ee8a-4ca4-894e-db77e160355e_report.txt'' ''hello''
          ''application/octet-stream'',
        GeneratePresignedUrl ''get_object'' (Some ''my-bucket'')
          ''uploads/6fa459ea-ee8a-4ca4-894e-db77e160355e_report.txt'' 3600]
   \<and> s3_calls (snd (index keep_safe_chars ready_app report_upload (fresh_world read_only_store))) =
       [HeadBucket (Some ''my-bucket''),
        PutObject (Some ''my-bucket'') ''diag/1b4e28ba-2fa1-41d2-883f-0016d3cca427.txt''
          ''diag'' ''text/plain'']
   \<and> map snd (run keep_safe_chars ready_app
         [(ok_store, report_upload), (no_bucket_store, report_upload)] (fresh_world ok_store)) =
       [[HeadBucket (Some ''my-bucket''),
         PutObject (Some ''my-bucket'') ''diag/1b4e28ba-2fa1-41d2-883f-0016d3cca427.txt''
           ''diag'' ''text/plain'',
         PutObject (Some ''my-bucket'')
           ''uploads/6fa459ea-ee8a-4ca4-894e-db77e160355e_report.txt'' ''hello''
           ''application/octet-stream'',
         GeneratePresignedUrl ''get_object'' (Some ''my-bucket'')
           ''uploads/6fa459ea-ee8a-4ca4-894e-db77e160355e_report.txt'' 3600],
        [HeadBucket (Some ''my-bucket'')]]
   \<and> req_method empty_form = POST \<and> req_file empty_form = None
   \<and> s3_calls (snd (index keep_safe_chars ready_app empty_form (fresh_world ok_store))) =
       [HeadBucket (Some ''my-bucket''),
        PutObject (Some ''my-bucket'') ''diag/1b4e28ba-2fa1-41d2-883f-0016d3cca427.txt''
          ''diag'' ''text/plain'']"
proof -
  have p': "req_method empty_form = POST" and n: "req_file empty_form = None"
    by (simp_all add: input_defs)
  have e: "s3_calls (snd (index keep_safe_chars ready_app empty_form (fresh_world ok_store))) =
       [HeadBucket (Some ''my-bucket''),
        PutObject (Some ''my-bucket'') ''diag/1b4e28ba-2fa1-41d2-883f-0016d3cca427.txt''
          ''diag'' ''text/plain'']"
    using request_steps_in_order [where sf = keep_safe_chars and w = "fresh_world ok_store"
        and a = ready_app, OF _ p' refl refl, THEN conjunct2, THEN conjunct1]
    by (simp add: input_defs)
  have a: "g_auth_ok ready_app" and p: "req_method report_upload = POST"
    by (simp_all add: input_defs)
  note t = request_steps_in_order [where sf = keep_safe_chars, OF a p refl refl]
  have "s3_calls (snd (index keep_safe_chars ready_app report_upload (fresh_world ok_store))) =
       [HeadBucket (Some ''my-bucket''),
        PutObject (Some ''my-bucket'') ''diag/1b4e28ba-2fa1-41d2-883f-0016d3cca427.txt''
          ''diag'' ''text/plain'',
        PutObject (Some ''my-bucket'')
          ''uploads/6fa459ea-ee8a-4ca4-894e-db77e160355e_report.txt'' ''hello''
          ''application/octet-stream'',
        GeneratePresignedUrl ''get_object'' (Some ''my-bucket'')
          ''uploads/6fa459ea-ee8a-4ca4-894e-db77e160355e_report.txt'' 3600]"
    using t [of "fresh_world ok_store", THEN conjunct1, rule_format,
        of "\<lparr>filename = ''report.txt'', stream = ''hello'', mimetype = []\<rparr>"]
    by (simp add: input_defs)
  moreover
  have "s3_calls (snd (index keep_safe_chars ready_app report_upload (fresh_world read_only_store))) =
       [HeadBucket (Some ''my-bucket''),
        PutObject (Some ''my-bucket'') ''diag/1b4e28ba-2fa1-41d2-883f-0016d3cca427.txt''
          ''diag'' ''text/plain'']"
    using t [of "fresh_world read_only_store", THEN conjunct1, rule_format,
        of "\<lparr>filename = ''report.txt'', stream = ''hello'', mimetype = []\<rparr>"]
    by (simp add: input_defs)
  moreover
  have "map snd (run keep_safe_chars ready_app
         [(ok_store, report_upload), (no_bucket_store, report_upload)] (fresh_world ok_store)) =
       [[HeadBucket (Some ''my-bucket''),
         PutObject (Some ''my-bucket'') ''diag/1b4e28ba-2fa1-41d2-883f-0016d3cca427.txt''
           ''diag'' ''text/plain'',
         PutObject (Some ''my-bucket'')
           ''uploads/6fa459ea-ee8a-4ca4-894e-db77e160355e_report.txt'' ''hello''
           ''application/octet-stream'',
         GeneratePresignedUrl ''get_object'' (Some ''my-bucket'')
           ''uploads/6fa459ea-ee8a-4ca4-894e-db77e160355e_report.txt'' 3600],
        [HeadBucket (Some ''my-bucket'')]]"
    by (simp add: model_defs input_defs)
  ultimately show ?thesis using a p p' n e by simp
qed

subsection \<open>The storage key\<close>

text \<open>
  Claim C4. When a POST passes both checks and the declared filename sanitizes to a
  non-empty name \<open>n\<close>, the object is put under exactly \<open>uploads/<id>_<n>\<close>, where
  \<open>id\<close> is an identifier drawn from the random source during this request (the draw
  after the one the diagnostic put used; the request leaves the source two draws
  further). The key depends on nothing else, and the request makes no call besides the
  two checks, this put and, after it, the presign: nothing probes the store for an
  existing key.
\<close>

theorem upload_key_shape:
  assumes "g_auth_ok a" and "req_method rq = POST"
    and "head_bucket (s3_store w) (WASABI_BUCKET a) = Inr ()"
    and "put_object (s3_store w) (WASABI_BUCKET a)
           (''diag/'' @ uuid_source w (uuid_drawn w) @ ''.txt'') ''diag'' ''text/plain'' = Inr ()"
    and "req_file rq = Some f" and "filename f \<noteq> []"
    and "sf (filename f) = n" and "n \<noteq> []"
    and "key = ''uploads/'' @ uuid_source w (Suc (uuid_drawn w)) @ ''_'' @ n"
  shows "\<exists>rest.
           s3_calls (snd (index sf a rq w)) = s3_calls w @
             [HeadBucket (WASABI_BUCKET a),
              PutObject (WASABI_BUCKET a) (''diag/'' @ uuid_source w (uuid_drawn w) @ ''.txt'')
                ''diag'' ''text/plain'',
              PutObject (WASABI_BUCKET a) key (stream f)
                (if mimetype f \<noteq> [] then mimetype f else ''application/octet-stream'')] @ rest
         \<and> (rest = [] \<or> rest = [GeneratePresignedUrl ''get_object'' (WASABI_BUCKET a) key 3600])
         \<and> uuid_drawn (snd (index sf a rq w)) = uuid_drawn w + 2"
proof -
  have n: "sf (filename f) \<noteq> []" using assms(7,8) by simp
  have k: "key = ''uploads/'' @ uuid_source w (Suc (uuid_drawn w)) @ ''_'' @ sf (filename f)"
    using assms(7,9) by simp
  show ?thesis
    unfolding index_upload [where sf = sf and f = f and w = w and a = a and rq = rq,
        OF assms(1,2,3,4,5,6) n k refl refl]
    by (simp split: sum.splits exn.splits)
qed

theorem upload_key_shape_witness:
  "g_auth_ok ready_app \<and> req_method report_upload = POST
   \<and> keep_safe_chars ''report.txt'' = ''report.txt''
   \<and> s3_calls (snd (index keep_safe_chars ready_app report_upload (fresh_world ok_store))) =
       [HeadBucket (Some ''my-bucket''),
        PutObject (Some ''my-bucket'') ''diag/1b4e28ba-2fa1-41d2-883f-0016d3cca427.txt''
          ''diag'' ''text/plain'',
        PutObject (Some ''my-bucket'')
          ''uploads/6fa459ea-ee8a-4ca4-894e-db77e160355e_report.txt'' ''hello''
          ''application/octet-stream'',
        GeneratePresignedUrl ''get_object'' (Some ''my-bucket'')
          ''uploads/6fa459ea-ee8a-4ca4-894e-db77e160355e_report.txt'' 3600]
   \<and> uuid_drawn (snd (index keep_safe_chars ready_app report_upload (fresh_world ok_store))) = 2"
  using upload_key_shape [of ready_app report_upload "fresh_world ok_store"
        "\<lparr>filename = ''report.txt'', stream = ''hello'', mimetype = []\<rparr>" keep_safe_chars
        "''report.txt''" "''uploads/6fa459ea-ee8a-4ca4-894e-db77e160355e_report.txt''"]
  by (simp add: report_upload_served) (simp add: input_defs)

subsection \<open>The presigned URL\<close>

text \<open>
  Claim C5. When the put of the user's object returns, the handler's next and last call
  asks the client for a presigned URL of the method \<open>get_object\<close>, for the configured
  bucket and exactly the key just written, with \<open>ExpiresIn\<close> 3600; the URL that call
  yields is the URL of the rendered page.
\<close>

theorem presigned_url_after_write:
  assumes "g_auth_ok a" and "req_method rq = POST"
    and "head_bucket (s3_store w) (WASABI_BUCKET a) = Inr ()"
    and "put_object (s3_store w) (WASABI_BUCKET a)
           (''diag/'' @ uuid_source w (uuid_drawn w) @ ''.txt'') ''diag'' ''text/plain'' = Inr ()"
    and "req_file rq = Some f" and "filename f \<noteq> []" and "sf (filename f) \<noteq> []"
    and "key = ''uploads/'' @ uuid_source w (Suc (uuid_drawn w)) @ ''_'' @ sf (filename f)"
    and "ct = (if mimetype f \<noteq> [] then mimetype f else ''application/octet-stream'')"
    and "put_object (s3_store w) (WASABI_BUCKET a) key (stream f) ct = Inr ()"
  shows "s3_calls (snd (index sf a rq w)) = s3_calls w @
             [HeadBucket (WASABI_BUCKET a),
              PutObject (WASABI_BUCKET a) (''diag/'' @ uuid_source w (uuid_drawn w) @ ''.txt'')
                ''diag'' ''text/plain'',
              PutObject (WASABI_BUCKET a) key (stream f) ct,
              GeneratePresignedUrl ''get_object'' (WASABI_BUCKET a) key 3600]
       \<and> (\<forall>v. generate_presigned_url (s3_store w) ''get_object'' (WASABI_BUCKET a) key 3600
                 = Inr v
              \<longrightarrow> fst (index sf a rq w) = Inr (render_template_string a (Some v) None None))"
  unfolding index_upload [where sf = sf and f = f and w = w and a = a and rq = rq,
      OF assms(1-9) refl]
  using assms(10) by (simp split: sum.splits exn.splits)

theorem presigned_url_after_write_witness:
  "put_object (s3_store (fresh_world ok_store)) (WASABI_BUCKET ready_app)
      ''uploads/6fa459ea-ee8a-4ca4-894e-db77e160355e_report.txt'' ''hello''
      ''application/octet-stream'' = Inr ()
   \<and> generate_presigned_url (s3_store (fresh_world ok_store)) ''get_object''
      (WASABI_BUCKET ready_app) ''uploads/6fa459ea-ee8a-4ca4-894e-db77e160355e_report.txt'' 3600
      = Inr ''https://s3.example/uploads/6fa459ea-ee8a-4ca4-894e-db77e160355e_report.txt?sig''
   \<and> fst (index keep_safe_chars ready_app report_upload (fresh_world ok_store)) =
      Inr (render_template_string ready_app
        (Some ''https://s3.example/uploads/6fa459ea-ee8a-4ca4-894e-db77e160355e_report.txt?sig'')
        None None)
   \<and> last (s3_calls (snd (index keep_safe_chars ready_app report_upload (fresh_world ok_store))))
      = GeneratePresignedUrl ''get_object'' (Some ''my-bucket'')
          ''uploads/6fa459ea-ee8a-4ca4-894e-db77e160355e_report.txt'' 3600"
  using presigned_url_after_write [of ready_app report_upload "fresh_world ok_store"
        "\<lparr>filename = ''report.txt'', stream = ''hello'', mimetype = []\<rparr>" keep_safe_chars
        "''uploads/6fa459ea-ee8a-4ca4-894e-db77e160355e_report.txt''"
        "''application/octet-stream''"]
  by (simp add: report_upload_served) (simp add: input_defs)

subsection \<open>Input validation\<close>

text \<open>
  Claim C1, as stated, fails: the file part is looked at only after
  \<open>preflight_bucket()\<close> and \<open>diag_put()\<close> have run. A POST without a file part, on
  a store where everything succeeds, is answered \<open>No file selected.\<close> after a
  head-bucket call and a diagnostic put.
\<close>

theorem validation_after_store_calls_counterexample:
  "fst (index keep_safe_chars ready_app empty_form (fresh_world ok_store)) =
     Inr (render_template_string ready_app None (Some ''No file selected.'') None)
   \<and> s3_calls (snd (index keep_safe_chars ready_app empty_form (fresh_world ok_store))) =
       [HeadBucket (Some ''my-bucket''),
        PutObject (Some ''my-bucket'') ''diag/1b4e28ba-2fa1-41d2-883f-0016d3cca427.txt''
          ''diag'' ''text/plain'']"
  by (simp add: empty_form_served)

text \<open>
  Claim C1, amended. For a POST (startup authentication passed) whose form has no file
  part, or a part with an empty filename, or a filename that is empty after
  sanitization, the handler makes no real put and no presign: it calls nothing but
  head-bucket and the diagnostic put. When both of these succeed, exactly these two
  calls are made and the page carries the local message, \<open>No file selected.\<close> for a
  missing part or empty filename and \<open>Invalid filename.\<close> otherwise.
\<close>

theorem validation_failure_after_checks:
  assumes "g_auth_ok a" and "req_method rq = POST"
    and "req_file rq = None
         \<or> (\<exists>f. req_file rq = Some f \<and> (filename f = [] \<or> sf (filename f) = []))"
    and "hb = HeadBucket (WASABI_BUCKET a)"
    and "dp = PutObject (WASABI_BUCKET a) (''diag/'' @ uuid_source w (uuid_drawn w) @ ''.txt'')
                ''diag'' ''text/plain''"
  shows "(\<exists>tr. s3_calls (snd (index sf a rq w)) = s3_calls w @ tr \<and> set tr \<subseteq> {hb, dp})
       \<and> (head_bucket (s3_store w) (WASABI_BUCKET a) = Inr ()
          \<and> put_object (s3_store w) (WASABI_BUCKET a)
               (''diag/'' @ uuid_source w (uuid_drawn w) @ ''.txt'') ''diag'' ''text/plain''
             = Inr ()
          \<longrightarrow> s3_calls (snd (index sf a rq w)) = s3_calls w @ [hb, dp]
            \<and> fst (index sf a rq w) =
                Inr (render_template_string a None
                  (Some (if req_file rq = None \<or> (\<exists>f. req_file rq = Some f \<and> filename f = [])
                         then ''No file selected.'' else ''Invalid filename.'')) None))"
proof (intro conjI impI)
  have "s3_calls (snd (index sf a rq w)) = s3_calls w @ run_until_failure
     [(hb, \<not> isl (head_bucket (s3_store w) (WASABI_BUCKET a))),
      (dp, \<not> isl (put_object (s3_store w) (WASABI_BUCKET a)
               (''diag/'' @ uuid_source w (uuid_drawn w) @ ''.txt'') ''diag'' ''text/plain''))]"
    unfolding assms(4,5) by (rule index_calls_invalid [OF assms(1,2,3) refl])
  then show "\<exists>tr. s3_calls (snd (index sf a rq w)) = s3_calls w @ tr \<and> set tr \<subseteq> {hb, dp}"
    by auto
next
  assume ok: "head_bucket (s3_store w) (WASABI_BUCKET a) = Inr ()
          \<and> put_object (s3_store w) (WASABI_BUCKET a)
               (''diag/'' @ uuid_source w (uuid_drawn w) @ ''.txt'') ''diag'' ''text/plain''
             = Inr ()"
  then have hbok: "head_bucket (s3_store w) (WASABI_BUCKET a) = Inr ()"
    and dpok: "put_object (s3_store w) (WASABI_BUCKET a)
               (''diag/'' @ uuid_source w (uuid_drawn w) @ ''.txt'') ''diag'' ''text/plain''
             = Inr ()" by simp_all
  show "s3_calls (snd (index sf a rq w)) = s3_calls w @ [hb, dp]"
    unfolding index_calls_invalid [OF assms(1,2,3) refl] using hbok dpok assms(4,5) by simp
  show "fst (index sf a rq w) =
                Inr (render_template_string a None
                  (Some (if req_file rq = None \<or> (\<exists>f. req_file rq = Some f \<and> filename f = [])
                         then ''No file selected.'' else ''Invalid filename.'')) None)"
  proof (cases "req_file rq = None \<or> (\<exists>f. req_file rq = Some f \<and> filename f = [])")
    case True
    then show ?thesis
      using index_no_file [OF assms(1,2) hbok dpok, of sf] by simp
  next
    case False
    with assms(3) obtain f where "req_file rq = Some f" "filename f \<noteq> []" "sf (filename f) = []"
      by auto
    then show ?thesis
      using index_bad_name [OF assms(1,2) hbok dpok, of f sf] False by simp
  qed
qed

theorem validation_failure_after_checks_witness:
  "fst (index keep_safe_chars ready_app unusable_name_upload (fresh_world ok_store)) =
     Inr (render_template_string ready_app None (Some ''Invalid filename.'') None)
   \<and> s3_calls (snd (index keep_safe_chars ready_app unusable_name_upload (fresh_world ok_store))) =
       [HeadBucket (Some ''my-bucket''),
        PutObject (Some ''my-bucket'') ''diag/1b4e28ba-2fa1-41d2-883f-0016d3cca427.txt''
          ''diag'' ''text/plain'']
   \<and> keep_safe_chars ''???'' = []
   \<and> head_bucket (s3_store (fresh_world ok_store)) (WASABI_BUCKET ready_app) = Inr ()"
  using validation_failure_after_checks [of ready_app unusable_name_upload keep_safe_chars _ _
      "fresh_world ok_store", OF _ _ _ refl refl]
  by (simp add: unusable_name_upload_served) (simp add: input_defs)

subsection \<open>A file part with an empty filename\<close>

text \<open>
  Claim C10, as stated, fails in its last part: a POST whose file part has the empty
  filename is answered \<open>No file selected.\<close>, but an object has been written for that
  request, the diagnostic one.
\<close>

theorem empty_filename_writes_diag_object_counterexample:
  "req_file nameless_upload = Some \<lparr>filename = [], stream = ''hello'', mimetype = ''text/plain''\<rparr>
   \<and> fst (index keep_safe_chars ready_app nameless_upload (fresh_world ok_store)) =
     Inr (render_template_string ready_app None (Some ''No file selected.'') None)
   \<and> s3_calls (snd (index keep_safe_chars ready_app nameless_upload (fresh_world ok_store))) =
       [HeadBucket (Some ''my-bucket''),
        PutObject (Some ''my-bucket'') ''diag/1b4e28ba-2fa1-41d2-883f-0016d3cca427.txt''
          ''diag'' ''text/plain'']"
  by (simp add: nameless_upload_served) (simp add: nameless_upload_def)

text \<open>
  Claim C10, amended. A POST whose file part has the empty filename is handled exactly
  as the same request without the part: same outcome, same calls. With startup
  authentication passed and both checks succeeding, the page reports
  \<open>No file selected.\<close> (not the invalid-filename error) after the head-bucket call and
  the diagnostic put. In every case the only object the request can write is the
  diagnostic one: every put it makes has a key under \<open>diag/\<close>, none under
  \<open>uploads/\<close>.
\<close>

theorem empty_filename_like_absent_part:
  assumes "req_method rq = POST" and "req_file rq = Some f" and "filename f = []"
  shows "index sf a rq w = index sf a (rq\<lparr>req_file := None\<rparr>) w
       \<and> (g_auth_ok a
          \<and> head_bucket (s3_store w) (WASABI_BUCKET a) = Inr ()
          \<and> put_object (s3_store w) (WASABI_BUCKET a)
               (''diag/'' @ uuid_source w (uuid_drawn w) @ ''.txt'') ''diag'' ''text/plain''
             = Inr ()
          \<longrightarrow> index sf a rq w =
               (Inr (render_template_string a None (Some ''No file selected.'') None),
                w\<lparr>uuid_drawn := Suc (uuid_drawn w),
                  s3_calls := s3_calls w @ [HeadBucket (WASABI_BUCKET a),
                    PutObject (WASABI_BUCKET a)
                      (''diag/'' @ uuid_source w (uuid_drawn w) @ ''.txt'')
                      ''diag'' ''text/plain'']\<rparr>))
       \<and> (\<exists>tr. s3_calls (snd (index sf a rq w)) = s3_calls w @ tr
              \<and> (\<forall>b k body ct. PutObject b k body ct \<in> set tr \<longrightarrow>
                    prefix ''diag/'' k \<and> \<not> prefix ''uploads/'' k))"
proof (intro conjI impI)
  show "index sf a rq w = index sf a (rq\<lparr>req_file := None\<rparr>) w"
    using assms by (simp add: index_def split: prod.splits sum.splits)
next
  assume "g_auth_ok a
          \<and> head_bucket (s3_store w) (WASABI_BUCKET a) = Inr ()
          \<and> put_object (s3_store w) (WASABI_BUCKET a)
               (''diag/'' @ uuid_source w (uuid_drawn w) @ ''.txt'') ''diag'' ''text/plain''
             = Inr ()"
  then show "index sf a rq w =
               (Inr (render_template_string a None (Some ''No file selected.'') None),
                w\<lparr>uuid_drawn := Suc (uuid_drawn w),
                  s3_calls := s3_calls w @ [HeadBucket (WASABI_BUCKET a),
                    PutObject (WASABI_BUCKET a)
                      (''diag/'' @ uuid_source w (uuid_drawn w) @ ''.txt'')
                      ''diag'' ''text/plain'']\<rparr>)"
    using index_no_file [OF _ assms(1), of a w _ _ sf] assms(2,3) by simp
next
  show "\<exists>tr. s3_calls (snd (index sf a rq w)) = s3_calls w @ tr
              \<and> (\<forall>b k body ct. PutObject b k body ct \<in> set tr \<longrightarrow>
                    prefix ''diag/'' k \<and> \<not> prefix ''uploads/'' k)"
  proof (cases "g_auth_ok a")
    case False
    then have "snd (index sf a rq w) = w" by (simp add: index_auth_failed)
    then show ?thesis by simp
  next
    case True
    have inv: "req_file rq = None
         \<or> (\<exists>f. req_file rq = Some f \<and> (filename f = [] \<or> sf (filename f) = []))"
      using assms(2,3) by simp
    have "s3_calls (snd (index sf a rq w)) = s3_calls w @ run_until_failure
       [(HeadBucket (WASABI_BUCKET a), \<not> isl (head_bucket (s3_store w) (WASABI_BUCKET a))),
        (PutObject (WASABI_BUCKET a) (''diag/'' @ uuid_source w (uuid_drawn w) @ ''.txt'')
           ''diag'' ''text/plain'',
           \<not> isl (put_object (s3_store w) (WASABI_BUCKET a)
              (''diag/'' @ uuid_source w (uuid_drawn w) @ ''.txt'') ''diag'' ''text/plain''))]"
      by (rule index_calls_invalid [OF True assms(1) inv refl])
    then show ?thesis by auto
  qed
qed

theorem empty_filename_like_absent_part_witness:
  "req_method nameless_upload = POST
   \<and> req_file nameless_upload =
       Some \<lparr>filename = [], stream = ''hello'', mimetype = ''text/plain''\<rparr>
   \<and> nameless_upload\<lparr>req_file := None\<rparr> = empty_form
   \<and> index keep_safe_chars ready_app nameless_upload (fresh_world ok_store) =
       index keep_safe_chars ready_app empty_form (fresh_world ok_store)
   \<and> fst (index keep_safe_chars ready_app nameless_upload (fresh_world ok_store)) =
       Inr (render_template_string ready_app None (Some ''No file selected.'') None)"
  using empty_filename_like_absent_part [of nameless_upload
      "\<lparr>filename = [], stream = ''hello'', mimetype = ''text/plain''\<rparr>" keep_safe_chars
      ready_app "fresh_world ok_store"]
  by (simp add: nameless_upload_served empty_form_served)
     (simp add: nameless_upload_def empty_form_def)

subsection \<open>Missing configuration\<close>

text \<open>
  Claim C2, as stated, fails: with \<open>WASABI_REGION\<close> set to blanks, \<open>_env\<close> gives
  \<open>None\<close>, and \<open>WASABI_REGION.strip()\<close> in the arguments of \<open>Session(...)\<close> raises
  \<open>AttributeError\<close>. The exception leaves the module before the Flask application
  exists and before any store call: the process does not start.
\<close>

theorem blank_region_stops_startup_counterexample:
  "blank_region_environ ''WASABI_REGION'' = Some ''   ''
   \<and> module_init blank_region_environ (fresh_world ok_store) =
       (Inl (AttributeError ''strip''), fresh_world ok_store)"
  by (simp add: module_init_def blank_region_environ_def full_environ_def env_get_def
      py_strip_def py_isspace_def attr_strip_def)

text \<open>
  Claim C2, amended. When the access key, the secret key, the region or the endpoint is
  absent from the environment or empty after trimming, module initialisation ends with
  an exception, before any store call and before the Flask application exists: the
  process fails to start and serves no page. The exception is the \<open>AttributeError\<close>
  of \<open>.strip()\<close> on \<open>None\<close>; for a missing endpoint this holds when building the
  session, which comes first, has not itself raised.
\<close>

theorem startup_needs_four_values:
  "(\<forall>k \<in> {''WASABI_ACCESS_KEY'', ''WASABI_SECRET_KEY'', ''WASABI_REGION'', ''WASABI_ENDPOINT''}.
      environ k = None \<or> (\<exists>v. environ k = Some v \<and> py_strip v = [])
      \<longrightarrow> (\<exists>x. module_init environ w = (Inl x, w)))
   \<and> (\<forall>k \<in> {''WASABI_ACCESS_KEY'', ''WASABI_SECRET_KEY'', ''WASABI_REGION''}.
      environ k = None \<or> (\<exists>v. environ k = Some v \<and> py_strip v = [])
      \<longrightarrow> module_init environ w = (Inl (AttributeError ''strip''), w))
   \<and> ((environ ''WASABI_ENDPOINT'' = None
          \<or> (\<exists>v. environ ''WASABI_ENDPOINT'' = Some v \<and> py_strip v = []))
        \<and> (\<forall>ak sk rg. boto3_session w ak sk rg = Inr ())
      \<longrightarrow> module_init environ w = (Inl (AttributeError ''strip''), w))"
proof (intro conjI ballI impI)
  fix k
  assume k: "k \<in> {''WASABI_ACCESS_KEY'', ''WASABI_SECRET_KEY'', ''WASABI_REGION''}"
    and "environ k = None \<or> (\<exists>v. environ k = Some v \<and> py_strip v = [])"
  then have "env_get environ k True None = None" by (simp only: env_get_absent_or_blank)
  with k have "env_get environ ''WASABI_ACCESS_KEY'' True None = None
         \<or> env_get environ ''WASABI_SECRET_KEY'' True None = None
         \<or> env_get environ ''WASABI_REGION'' True None = None"
    by auto
  then show "module_init environ w = (Inl (AttributeError ''strip''), w)"
    by (rule module_init_missing)
next
  fix k
  assume k: "k \<in> {''WASABI_ACCESS_KEY'', ''WASABI_SECRET_KEY'', ''WASABI_REGION'',
      ''WASABI_ENDPOINT''}"
    and "environ k = None \<or> (\<exists>v. environ k = Some v \<and> py_strip v = [])"
  then have "env_get environ k True None = None" by (simp only: env_get_absent_or_blank)
  with k have "env_get environ ''WASABI_ACCESS_KEY'' True None = None
         \<or> env_get environ ''WASABI_SECRET_KEY'' True None = None
         \<or> env_get environ ''WASABI_REGION'' True None = None
         \<or> env_get environ ''WASABI_ENDPOINT'' True None = None"
    by auto
  then show "\<exists>x. module_init environ w = (Inl x, w)"
    by (rule module_init_no_start)
next
  assume "(environ ''WASABI_ENDPOINT'' = None
          \<or> (\<exists>v. environ ''WASABI_ENDPOINT'' = Some v \<and> py_strip v = []))
        \<and> (\<forall>ak sk rg. boto3_session w ak sk rg = Inr ())"
  then have "env_get environ ''WASABI_ENDPOINT'' True None = None"
    and "\<forall>ak sk rg. boto3_session w ak sk rg = Inr ()"
    unfolding env_get_absent_or_blank by blast+
  then show "module_init environ w = (Inl (AttributeError ''strip''), w)"
    by (rule module_init_missing_endpoint)
qed

theorem startup_needs_four_values_witness:
  "blank_region_environ ''WASABI_REGION'' = Some ''   '' \<and> py_strip ''   '' = []
   \<and> module_init blank_region_environ (fresh_world bad_keys_store) =
       (Inl (AttributeError ''strip''), fresh_world bad_keys_store)
   \<and> no_endpoint_environ ''WASABI_ENDPOINT'' = None
   \<and> boto3_session (fresh_world ok_store) ''AKIAEXAMPLEKEY00'' ''s3cr3t'' ''us-east-1'' = Inr ()
   \<and> module_init no_endpoint_environ (fresh_world ok_store) =
       (Inl (AttributeError ''strip''), fresh_world ok_store)"
proof -
  have b: "blank_region_environ ''WASABI_REGION'' = Some ''   ''" "py_strip ''   '' = []"
    by (simp_all add: blank_region_environ_def py_strip_def py_isspace_def)
  have 1: "module_init blank_region_environ (fresh_world bad_keys_store) =
       (Inl (AttributeError ''strip''), fresh_world bad_keys_store)"
    using startup_needs_four_values [of blank_region_environ "fresh_world bad_keys_store",
        THEN conjunct2, THEN conjunct1, rule_format, of "''WASABI_REGION''"] b
    by simp
  have n: "no_endpoint_environ ''WASABI_ENDPOINT'' = None"
    by (simp add: no_endpoint_environ_def)
  have s: "\<forall>ak sk rg. boto3_session (fresh_world ok_store) ak sk rg = Inr ()"
    by (simp add: fresh_world_def)
  have 2: "module_init no_endpoint_environ (fresh_world ok_store) =
       (Inl (AttributeError ''strip''), fresh_world ok_store)"
    using startup_needs_four_values [of no_endpoint_environ "fresh_world ok_store",
        THEN conjunct2, THEN conjunct2, rule_format] n s
    by blast
  from b 1 n s 2 show ?thesis by simp
qed

subsection \<open>Failures at the handler boundary\<close>

text \<open>
  Claim C3, as stated, fails: every \<open>except\<close> clause of the module names
  \<open>ClientError\<close>, so an exception of another class raised by a store call leaves the
  handler. On a store whose head-bucket call raises a connection error, the POST ends
  with that exception and no page.
\<close>

theorem connection_error_escapes_counterexample:
  "head_bucket unreachable_store (Some ''my-bucket'') = Inl (OtherError ''EndpointConnectionError'')
   \<and> fst (index keep_safe_chars ready_app report_upload (fresh_world unreachable_store)) =
       Inl (OtherError ''EndpointConnectionError'')"
  by (simp add: unreachable_store_served) (simp add: input_defs)

text \<open>
  Claim C3, amended. A \<open>ClientError\<close> raised while a request is handled becomes the
  error message of the rendered page, which then carries no URL: the page reads
  \<open>Bucket check failed: \<close> followed by the message of \<open>preflight_bucket\<close> when
  head-bucket raised it, \<open>Diagnostic PutObject failed: \<close> followed by the store's
  error text when the diagnostic put raised it, and the store's error text when the real
  put or the presign raised it. The \<open>ClientError\<close> of list-buckets at startup is
  recorded as the startup error, and every page then shows it. An exception of any other
  class raised by head-bucket, the diagnostic put, the real put or the presign is not
  caught: the handler ends with that exception. So a request ends with a page whenever
  the store calls only return or raise \<open>ClientError\<close>.
\<close>

theorem client_errors_become_messages:
  assumes "b = WASABI_BUCKET a"
    and "dk = ''diag/'' @ uuid_source w (uuid_drawn w) @ ''.txt''"
    and "key = ''uploads/'' @ uuid_source w (Suc (uuid_drawn w)) @ ''_'' @ sf (filename f)"
    and "ct = (if mimetype f \<noteq> [] then mimetype f else ''application/octet-stream'')"
  shows
   "(\<not> g_auth_ok a \<longrightarrow>
       fst (index sf a rq w) = Inr (render_template_string a None None (g_auth_err a)))
  \<and> (\<forall>environ w0 w1 e.
        module_init environ w0 = (Inr a, w1) \<and> list_buckets (s3_store w0) = Inl (ClientError e)
        \<longrightarrow> \<not> g_auth_ok a \<and> g_auth_err a = Some (err_text e))
  \<and> (g_auth_ok a \<and> req_method rq = POST \<longrightarrow>
       (\<forall>e. head_bucket (s3_store w) b = Inl (ClientError e) \<longrightarrow>
          (\<exists>m. m \<noteq> [] \<and> fst (preflight_bucket a w) = Inr (Some m)
             \<and> fst (index sf a rq w) =
                 Inr (render_template_string a None
                   (Some (''Bucket check failed: '' @ m)) None)))
     \<and> (\<forall>x. head_bucket (s3_store w) b = Inl x \<and> \<not> is_client_error x \<longrightarrow>
          fst (index sf a rq w) = Inl x)
     \<and> (head_bucket (s3_store w) b = Inr () \<longrightarrow>
          (\<forall>e. put_object (s3_store w) b dk ''diag'' ''text/plain'' = Inl (ClientError e) \<longrightarrow>
             fst (index sf a rq w) =
               Inr (render_template_string a None
                 (Some (''Diagnostic PutObject failed: '' @ err_text e)) None))
        \<and> (\<forall>x. put_object (s3_store w) b dk ''diag'' ''text/plain'' = Inl x
               \<and> \<not> is_client_error x \<longrightarrow>
             fst (index sf a rq w) = Inl x)
        \<and> (put_object (s3_store w) b dk ''diag'' ''text/plain'' = Inr ()
            \<and> req_file rq = Some f \<and> filename f \<noteq> [] \<and> sf (filename f) \<noteq> [] \<longrightarrow>
             (\<forall>e. put_object (s3_store w) b key (stream f) ct = Inl (ClientError e) \<longrightarrow>
                fst (index sf a rq w) =
                  Inr (render_template_string a None (Some (err_text e)) None))
           \<and> (\<forall>x. put_object (s3_store w) b key (stream f) ct = Inl x
                  \<and> \<not> is_client_error x \<longrightarrow>
                fst (index sf a rq w) = Inl x)
           \<and> (put_object (s3_store w) b key (stream f) ct = Inr () \<longrightarrow>
                (\<forall>e. generate_presigned_url (s3_store w) ''get_object'' b key 3600
                        = Inl (ClientError e) \<longrightarrow>
                   fst (index sf a rq w) =
                     Inr (render_template_string a None (Some (err_text e)) None))
              \<and> (\<forall>x. generate_presigned_url (s3_store w) ''get_object'' b key 3600 = Inl x
                     \<and> \<not> is_client_error x \<longrightarrow>
                   fst (index sf a rq w) = Inl x)))))
  \<and> ((\<forall>b'. returns_or_client_error (head_bucket (s3_store w) b'))
      \<and> (\<forall>b' k body c. returns_or_client_error (put_object (s3_store w) b' k body c))
      \<and> (\<forall>m b' k n. returns_or_client_error (generate_presigned_url (s3_store w) m b' k n))
      \<longrightarrow> (\<exists>p. fst (index sf a rq w) = Inr p))"
proof -
  have s0: "fst (index sf a rq w) = Inr (render_template_string a None None (g_auth_err a))"
    if "\<not> g_auth_ok a"
    using that by (simp add: index_auth_failed)
  have s1: "\<not> g_auth_ok a \<and> g_auth_err a = Some (err_text e)"
    if "module_init environ w0 = (Inr a, w1)" "list_buckets (s3_store w0) = Inl (ClientError e)"
    for environ w0 w1 e
    using that by (rule module_init_auth_failed)
  have h1: "\<exists>m. m \<noteq> [] \<and> fst (preflight_bucket a w) = Inr (Some m)
             \<and> fst (index sf a rq w) =
                 Inr (render_template_string a None
                   (Some (''Bucket check failed: '' @ m)) None)"
    if "g_auth_ok a" "req_method rq = POST" "head_bucket (s3_store w) b = Inl (ClientError e)"
    for e
    using that unfolding assms(1) by (rule index_head_client_error)
  have h2: "fst (index sf a rq w) = Inl x"
    if "g_auth_ok a" "req_method rq = POST" "head_bucket (s3_store w) b = Inl x"
      "\<not> is_client_error x" for x
    using that unfolding assms(1) by (rule index_head_other)
  have d1: "fst (index sf a rq w) =
               Inr (render_template_string a None
                 (Some (''Diagnostic PutObject failed: '' @ err_text e)) None)"
    if "g_auth_ok a" "req_method rq = POST" "head_bucket (s3_store w) b = Inr ()"
      "put_object (s3_store w) b dk ''diag'' ''text/plain'' = Inl (ClientError e)" for e
    using that unfolding assms(1,2) by (rule index_diag_client_error)
  have d2: "fst (index sf a rq w) = Inl x"
    if "g_auth_ok a" "req_method rq = POST" "head_bucket (s3_store w) b = Inr ()"
      "put_object (s3_store w) b dk ''diag'' ''text/plain'' = Inl x" "\<not> is_client_error x"
    for x
    using that unfolding assms(1,2) by (rule index_diag_other)
  have up: "fst (index sf a rq w) =
     (case put_object (s3_store w) b key (stream f) ct of
        Inl (ClientError e) \<Rightarrow> Inr (render_template_string a None (Some (err_text e)) None)
      | Inl x \<Rightarrow> Inl x
      | Inr u \<Rightarrow>
         (case generate_presigned_url (s3_store w) ''get_object'' b key 3600 of
            Inl (ClientError e) \<Rightarrow> Inr (render_template_string a None (Some (err_text e)) None)
          | Inl x \<Rightarrow> Inl x
          | Inr url_v \<Rightarrow> Inr (render_template_string a (Some url_v) None None)))"
    if "g_auth_ok a" "req_method rq = POST" "head_bucket (s3_store w) b = Inr ()"
      "put_object (s3_store w) b dk ''diag'' ''text/plain'' = Inr ()"
      "req_file rq = Some f" "filename f \<noteq> []" "sf (filename f) \<noteq> []"
    using that unfolding assms(1,2)
    by (rule index_upload_outcome [where sf = sf and f = f and key = key and ct = ct,
          OF _ _ _ _ _ _ _ assms(3) assms(4)])
  have p1: "fst (index sf a rq w) = Inr (render_template_string a None (Some (err_text e)) None)"
    if "g_auth_ok a" "req_method rq = POST" "head_bucket (s3_store w) b = Inr ()"
      "put_object (s3_store w) b dk ''diag'' ''text/plain'' = Inr ()"
      "req_file rq = Some f" "filename f \<noteq> []" "sf (filename f) \<noteq> []"
      "put_object (s3_store w) b key (stream f) ct = Inl (ClientError e)" for e
    using up [OF that(1-7)] that(8) by simp
  have p2: "fst (index sf a rq w) = Inl x"
    if "g_auth_ok a" "req_method rq = POST" "head_bucket (s3_store w) b = Inr ()"
      "put_object (s3_store w) b dk ''diag'' ''text/plain'' = Inr ()"
      "req_file rq = Some f" "filename f \<noteq> []" "sf (filename f) \<noteq> []"
      "put_object (s3_store w) b key (stream f) ct = Inl x" "\<not> is_client_error x" for x
    using up [OF that(1-7)] that(8) is_client_error_cases [OF that(9)] by auto
  have g1: "fst (index sf a rq w) = Inr (render_template_string a None (Some (err_text e)) None)"
    if "g_auth_ok a" "req_method rq = POST" "head_bucket (s3_store w) b = Inr ()"
      "put_object (s3_store w) b dk ''diag'' ''text/plain'' = Inr ()"
      "req_file rq = Some f" "filename f \<noteq> []" "sf (filename f) \<noteq> []"
      "put_object (s3_store w) b key (stream f) ct = Inr ()"
      "generate_presigned_url (s3_store w) ''get_object'' b key 3600 = Inl (ClientError e)"
    for e
    using up [OF that(1-7)] that(8,9) by simp
  have g2: "fst (index sf a rq w) = Inl x"
    if "g_auth_ok a" "req_method rq = POST" "head_bucket (s3_store w) b = Inr ()"
      "put_object (s3_store w) b dk ''diag'' ''text/plain'' = Inr ()"
      "req_file rq = Some f" "filename f \<noteq> []" "sf (filename f) \<noteq> []"
      "put_object (s3_store w) b key (stream f) ct = Inr ()"
      "generate_presigned_url (s3_store w) ''get_object'' b key 3600 = Inl x"
      "\<not> is_client_error x" for x
    using up [OF that(1-7)] that(8,9) is_client_error_cases [OF that(10)] by auto
  have t: "\<exists>p. fst (index sf a rq w) = Inr p"
    if "(\<forall>b'. returns_or_client_error (head_bucket (s3_store w) b'))
      \<and> (\<forall>b' k body c. returns_or_client_error (put_object (s3_store w) b' k body c))
      \<and> (\<forall>m b' k n. returns_or_client_error (generate_presigned_url (s3_store w) m b' k n))"
    using index_yields_page [of w sf a rq, THEN conjunct1, rule_format, OF that] by blast
  show ?thesis
  proof (intro conjI)
    show "\<not> g_auth_ok a \<longrightarrow>
       fst (index sf a rq w) = Inr (render_template_string a None None (g_auth_err a))"
      using s0 by blast
    show "\<forall>environ w0 w1 e.
        module_init environ w0 = (Inr a, w1) \<and> list_buckets (s3_store w0) = Inl (ClientError e)
        \<longrightarrow> \<not> g_auth_ok a \<and> g_auth_err a = Some (err_text e)"
      using s1 by blast
    show "(\<forall>b'. returns_or_client_error (head_bucket (s3_store w) b'))
      \<and> (\<forall>b' k body c. returns_or_client_error (put_object (s3_store w) b' k body c))
      \<and> (\<forall>m b' k n. returns_or_client_error (generate_presigned_url (s3_store w) m b' k n))
      \<longrightarrow> (\<exists>p. fst (index sf a rq w) = Inr p)"
      using t by blast
    show "g_auth_ok a \<and> req_method rq = POST \<longrightarrow>
       (\<forall>e. head_bucket (s3_store w) b = Inl (ClientError e) \<longrightarrow>
          (\<exists>m. m \<noteq> [] \<and> fst (preflight_bucket a w) = Inr (Some m)
             \<and> fst (index sf a rq w) =
                 Inr (render_template_string a None
                   (Some (''Bucket check failed: '' @ m)) None)))
     \<and> (\<forall>x. head_bucket (s3_store w) b = Inl x \<and> \<not> is_client_error x \<longrightarrow>
          fst (index sf a rq w) = Inl x)
     \<and> (head_bucket (s3_store w) b = Inr () \<longrightarrow>
          (\<forall>e. put_object (s3_store w) b dk ''diag'' ''text/plain'' = Inl (ClientError e) \<longrightarrow>
             fst (index sf a rq w) =
               Inr (render_template_string a None
                 (Some (''Diagnostic PutObject failed: '' @ err_text e)) None))
        \<and> (\<forall>x. put_object (s3_store w) b dk ''diag'' ''text/plain'' = Inl x
               \<and> \<not> is_client_error x \<longrightarrow>
             fst (index sf a rq w) = Inl x)
        \<and> (put_object (s3_store w) b dk ''diag'' ''text/plain'' = Inr ()
            \<and> req_file rq = Some f \<and> filename f \<noteq> [] \<and> sf (filename f) \<noteq> [] \<longrightarrow>
             (\<forall>e. put_object (s3_store w) b key (stream f) ct = Inl (ClientError e) \<longrightarrow>
                fst (index sf a rq w) =
                  Inr (render_template_string a None (Some (err_text e)) None))
           \<and> (\<forall>x. put_object (s3_store w) b key (stream f) ct = Inl x
                  \<and> \<not> is_client_error x \<longrightarrow>
                fst (index sf a rq w) = Inl x)
           \<and> (put_object (s3_store w) b key (stream f) ct = Inr () \<longrightarrow>
                (\<forall>e. generate_presigned_url (s3_store w) ''get_object'' b key 3600
                        = Inl (ClientError e) \<longrightarrow>
                   fst (index sf a rq w) =
                     Inr (render_template_string a None (Some (err_text e)) None))
              \<and> (\<forall>x. generate_presigned_url (s3_store w) ''get_object'' b key 3600 = Inl x
                     \<and> \<not> is_client_error x \<longrightarrow>
                   fst (index sf a rq w) = Inl x))))"
      using h1 h2 d1 d2 p1 p2 g1 g2 by blast
  qed
qed

theorem client_errors_become_messages_witness:
  "g_auth_ok ready_app \<and> req_method report_upload = POST
   \<and> head_bucket (s3_store (fresh_world read_only_store)) (WASABI_BUCKET ready_app) = Inr ()
   \<and> put_object (s3_store (fresh_world read_only_store)) (WASABI_BUCKET ready_app)
        ''diag/1b4e28ba-2fa1-41d2-883f-0016d3cca427.txt'' ''diag'' ''text/plain''
      = Inl (ClientError \<lparr>Code = Some ''ReadOnly'', Message = Some ''Writes are disabled''\<rparr>)
   \<and> fst (index keep_safe_chars ready_app report_upload (fresh_world read_only_store)) =
       Inr (render_template_string ready_app None
         (Some ''Diagnostic PutObject failed: ReadOnly: Writes are disabled'') None)
   \<and> head_bucket (s3_store (fresh_world unreachable_store)) (WASABI_BUCKET ready_app) =
       Inl (OtherError ''EndpointConnectionError'')
   \<and> \<not> is_client_error (OtherError ''EndpointConnectionError'')
   \<and> fst (index keep_safe_chars ready_app report_upload (fresh_world unreachable_store)) =
       Inl (OtherError ''EndpointConnectionError'')
   \<and> \<not> g_auth_ok locked_out_app
   \<and> fst (index keep_safe_chars locked_out_app report_upload (fresh_world ok_store)) =
       Inr (render_template_string locked_out_app None None
         (Some ''InvalidAccessKeyId: The access key does not exist''))"
proof -
  have c: "g_auth_ok ready_app" "req_method report_upload = POST" "\<not> g_auth_ok locked_out_app"
    "g_auth_err locked_out_app = Some ''InvalidAccessKeyId: The access key does not exist''"
    by (simp_all add: input_defs)
  have hb: "head_bucket (s3_store (fresh_world read_only_store)) (WASABI_BUCKET ready_app) = Inr ()"
    and dp: "put_object (s3_store (fresh_world read_only_store)) (WASABI_BUCKET ready_app)
        (''diag/'' @ uuid_source (fresh_world read_only_store)
           (uuid_drawn (fresh_world read_only_store)) @ ''.txt'') ''diag'' ''text/plain''
      = Inl (ClientError \<lparr>Code = Some ''ReadOnly'', Message = Some ''Writes are disabled''\<rparr>)"
    and hu: "head_bucket (s3_store (fresh_world unreachable_store)) (WASABI_BUCKET ready_app) =
       Inl (OtherError ''EndpointConnectionError'')"
    by (simp_all add: input_defs)
  have n: "\<not> is_client_error (OtherError ''EndpointConnectionError'')" by simp
  have 1: "fst (index keep_safe_chars ready_app report_upload (fresh_world read_only_store)) =
       Inr (render_template_string ready_app None
         (Some ''Diagnostic PutObject failed: ReadOnly: Writes are disabled'') None)"
    using client_errors_become_messages [where sf = keep_safe_chars and a = ready_app
          and rq = report_upload and w = "fresh_world read_only_store", OF refl refl refl refl,
        THEN conjunct2, THEN conjunct2, THEN conjunct1, rule_format, OF conjI [OF c(1,2)],
        THEN conjunct2, THEN conjunct2, rule_format, OF hb, THEN conjunct1, rule_format, OF dp]
    by (simp add: err_text_def)
  have 2: "fst (index keep_safe_chars ready_app report_upload (fresh_world unreachable_store)) =
       Inl (OtherError ''EndpointConnectionError'')"
    using client_errors_become_messages [where sf = keep_safe_chars and a = ready_app
          and rq = report_upload and w = "fresh_world unreachable_store", OF refl refl refl refl,
        THEN conjunct2, THEN conjunct2, THEN conjunct1, rule_format, OF conjI [OF c(1,2)],
        THEN conjunct2, THEN conjunct1, rule_format, OF conjI [OF hu n]] .
  have 3: "fst (index keep_safe_chars locked_out_app report_upload (fresh_world ok_store)) =
       Inr (render_template_string locked_out_app None None
         (Some ''InvalidAccessKeyId: The access key does not exist''))"
    using client_errors_become_messages [where sf = keep_safe_chars and a = locked_out_app
          and rq = report_upload and w = "fresh_world ok_store", OF refl refl refl refl,
        THEN conjunct1, rule_format, OF c(3)] c(4)
    by simp
  have dp': "put_object (s3_store (fresh_world read_only_store)) (WASABI_BUCKET ready_app)
        ''diag/1b4e28ba-2fa1-41d2-883f-0016d3cca427.txt'' ''diag'' ''text/plain''
      = Inl (ClientError \<lparr>Code = Some ''ReadOnly'', Message = Some ''Writes are disabled''\<rparr>)"
    by (simp add: input_defs)
  from c(1,2) hb dp' 1 hu n 2 c(3) 3 show ?thesis by (intro conjI)
qed

subsection \<open>The bucket check\<close>

text \<open>
  Claim C6, as stated, fails: \<open>preflight_bucket\<close> catches \<open>ClientError\<close> only. A
  head-bucket call that fails with another exception, here an unreachable endpoint, is
  neither put into one of the three classes nor passed through as text: the exception
  leaves the function.
\<close>

theorem preflight_raises_counterexample:
  "head_bucket (s3_store (fresh_world unreachable_store)) (WASABI_BUCKET ready_app) =
     Inl (OtherError ''EndpointConnectionError'')
   \<and> fst (preflight_bucket ready_app (fresh_world unreachable_store)) =
     Inl (OtherError ''EndpointConnectionError'')"
  by (simp add: preflight_bucket_def s3_defs fresh_world_def unreachable_store_def ok_store_def
      ready_app_def)

text \<open>
  Claim C6, amended. When head-bucket raises a \<open>ClientError\<close> with error text
  \<open>err\<close>, \<open>preflight_bucket\<close> returns exactly one message: the not-found message
  when \<open>err\<close> contains \<open>NoSuchBucket\<close> or \<open>404\<close>; otherwise the access-denied
  message when it contains \<open>AccessDenied\<close> or \<open>403\<close>; otherwise the
  region-mismatch message when it contains \<open>AuthorizationHeaderMalformed\<close> or
  \<open>301\<close>; otherwise \<open>err\<close> itself. The three messages differ from one another. The
  not-found message contains the configured region and the configured bucket name: the
  name stands there as \<open>repr\<close> writes it, which is the name in quotes for every name
  that passes botocore's check, and a client that checks names as botocore does raises
  \<open>ClientError\<close> for no other name. In every class a POST ends with the page
  \<open>Bucket check failed: ...\<close> after the head-bucket call alone: no diagnostic or real
  write is attempted. A head-bucket failure of any other exception class is not caught
  and leaves \<open>preflight_bucket\<close>.
\<close>

theorem preflight_classification:
  assumes "b = WASABI_BUCKET a"
    and "not_found = ''Bucket not found. Check spelling and region. ''
                  @ ''(bucket='' @ py_repr b
                  @ '', region='' @ py_str (WASABI_REGION a)
                  @ '', endpoint='' @ py_str (WASABI_ENDPOINT a) @ '')''"
    and "denied = ''Access denied to bucket. Keys must belong to same Wasabi account ''
                  @ ''and have s3:ListBucket & s3:PutObject.''"
    and "mismatch = ''Region mismatch. Set WASABI_REGION to the bucket'' @ [CHR 0x27]
                  @ ''s region '' @ ''and use endpoint https://s3.<region>.wasabisys.com''"
  shows "(\<forall>e err. head_bucket (s3_store w) b = Inl (ClientError e) \<and> err = err_text e \<longrightarrow>
            fst (preflight_bucket a w) =
              Inr (Some
                (if py_in ''NoSuchBucket'' err \<or> py_in ''404'' err then not_found
                 else if py_in ''AccessDenied'' err \<or> py_in ''403'' err then denied
                 else if py_in ''AuthorizationHeaderMalformed'' err \<or> py_in ''301'' err
                 then mismatch
                 else err))
          \<and> (g_auth_ok a \<and> req_method rq = POST \<longrightarrow>
                (\<exists>m. fst (preflight_bucket a w) = Inr (Some m)
                   \<and> index sf a rq w =
                       (Inr (render_template_string a None
                          (Some (''Bucket check failed: '' @ m)) None),
                        w\<lparr>s3_calls := s3_calls w @ [HeadBucket b]\<rparr>))))
       \<and> distinct [not_found, denied, mismatch]
       \<and> (\<forall>r. WASABI_REGION a = Some r \<longrightarrow> py_in r not_found)
       \<and> (\<forall>s. b = Some s \<and> valid_bucket_name s \<longrightarrow> py_in s not_found)
       \<and> (\<forall>e. head_bucket (s3_store w) b = Inl (ClientError e)
              \<and> validates_bucket_name (s3_store w)
            \<longrightarrow> (\<exists>s. b = Some s \<and> py_in s not_found))
       \<and> (\<forall>x. head_bucket (s3_store w) b = Inl x \<and> \<not> is_client_error x \<longrightarrow>
            fst (preflight_bucket a w) = Inl x)"
proof -
  have cls: "fst (preflight_bucket a w) =
              Inr (Some
                (if py_in ''NoSuchBucket'' err \<or> py_in ''404'' err then not_found
                 else if py_in ''AccessDenied'' err \<or> py_in ''403'' err then denied
                 else if py_in ''AuthorizationHeaderMalformed'' err \<or> py_in ''301'' err
                 then mismatch
                 else err))"
    if "head_bucket (s3_store w) b = Inl (ClientError e)" "err = err_text e" for e err
    unfolding assms that(2)
    by (rule preflight_client_error_message [OF that(1) [unfolded assms(1)]])
  have ix: "\<exists>m. fst (preflight_bucket a w) = Inr (Some m)
                   \<and> index sf a rq w =
                       (Inr (render_template_string a None
                          (Some (''Bucket check failed: '' @ m)) None),
                        w\<lparr>s3_calls := s3_calls w @ [HeadBucket b]\<rparr>)"
    if ce: "head_bucket (s3_store w) b = Inl (ClientError e)"
      and au: "g_auth_ok a" and po: "req_method rq = POST"
    for e
  proof -
    obtain m where m: "m \<noteq> []" "fst (preflight_bucket a w) = Inr (Some m)"
      using preflight_client_error [OF ce [unfolded assms(1)]] by blast
    show ?thesis
      using index_preflight_message [OF au po m(2,1), of sf] m(2)
      by (simp add: preflight_world assms(1))
  qed
  have d: "distinct [not_found, denied, mismatch]"
    unfolding assms by simp
  have r2: "py_in r not_found" if "WASABI_REGION a = Some r" for r
    using py_in_mid [of r
        "''Bucket not found. Check spelling and region. (bucket='' @ py_repr b @ '', region=''"
        "'', endpoint='' @ py_str (WASABI_ENDPOINT a) @ '')''"] that
    unfolding assms(2) by simp
  have r3: "py_in s not_found" if "b = Some s" "valid_bucket_name s" for s
    using py_in_mid [of s
        "''Bucket not found. Check spelling and region. (bucket='' @ [CHR 0x27]"
        "[CHR 0x27] @ '', region='' @ py_str (WASABI_REGION a)
                  @ '', endpoint='' @ py_str (WASABI_ENDPOINT a) @ '')''"]
      that(1) py_repr_plain [OF valid_bucket_name_repr_keeps [OF that(2)]]
    unfolding assms(2) by simp
  have r4: "\<exists>s. b = Some s \<and> py_in s not_found"
    if "head_bucket (s3_store w) b = Inl (ClientError e)" "validates_bucket_name (s3_store w)"
    for e
  proof -
    from that obtain s where "b = Some s" "valid_bucket_name s"
      unfolding validates_bucket_name_def by blast
    with r3 show ?thesis by blast
  qed
  have o: "fst (preflight_bucket a w) = Inl x"
    if "head_bucket (s3_store w) b = Inl x" "\<not> is_client_error x" for x
    using preflight_other [OF that(1) [unfolded assms(1)] that(2)] .
  from cls ix d r2 r3 r4 o show ?thesis by blast
qed

theorem preflight_classification_witness:
  "head_bucket (s3_store (fresh_world no_bucket_store)) (WASABI_BUCKET ready_app) =
     Inl (ClientError \<lparr>Code = Some ''404'', Message = Some ''Not Found''\<rparr>)
   \<and> validates_bucket_name (s3_store (fresh_world no_bucket_store))
   \<and> WASABI_BUCKET ready_app = Some ''my-bucket'' \<and> valid_bucket_name ''my-bucket''
   \<and> WASABI_REGION ready_app = Some ''us-east-1''
   \<and> g_auth_ok ready_app \<and> req_method report_upload = POST
   \<and> fst (preflight_bucket ready_app (fresh_world no_bucket_store)) =
       Inr (Some (''Bucket not found. Check spelling and region. (bucket='' @ [CHR 0x27]
        @ ''my-bucket'' @ [CHR 0x27]
        @ '', region=us-east-1, endpoint=https://s3.wasabisys.com)''))
   \<and> py_in ''my-bucket''
       (''Bucket not found. Check spelling and region. (bucket='' @ [CHR 0x27]
        @ ''my-bucket'' @ [CHR 0x27]
        @ '', region=us-east-1, endpoint=https://s3.wasabisys.com)'')
   \<and> py_in ''us-east-1''
       (''Bucket not found. Check spelling and region. (bucket='' @ [CHR 0x27]
        @ ''my-bucket'' @ [CHR 0x27]
        @ '', region=us-east-1, endpoint=https://s3.wasabisys.com)'')
   \<and> index keep_safe_chars ready_app report_upload (fresh_world no_bucket_store) =
       (Inr (render_template_string ready_app None
          (Some (''Bucket check failed: ''
             @ ''Bucket not found. Check spelling and region. (bucket='' @ [CHR 0x27]
             @ ''my-bucket'' @ [CHR 0x27]
             @ '', region=us-east-1, endpoint=https://s3.wasabisys.com)'')) None),
        (fresh_world no_bucket_store)\<lparr>s3_calls := [HeadBucket (Some ''my-bucket'')]\<rparr>)
   \<and> fst (preflight_bucket ready_app (fresh_world forbidden_store)) =
       Inr (Some (''Access denied to bucket. Keys must belong to same Wasabi account ''
               @ ''and have s3:ListBucket & s3:PutObject.''))
   \<and> fst (preflight_bucket ready_app (fresh_world moved_store)) =
       Inr (Some (''Region mismatch. Set WASABI_REGION to the bucket'' @ [CHR 0x27]
               @ ''s region '' @ ''and use endpoint https://s3.<region>.wasabisys.com''))
   \<and> fst (preflight_bucket ready_app (fresh_world busy_store)) =
       Inr (Some ''SlowDown: Please reduce your request rate.'')
   \<and> \<not> is_client_error (OtherError ''EndpointConnectionError'')
   \<and> fst (preflight_bucket ready_app (fresh_world unreachable_store)) =
       Inl (OtherError ''EndpointConnectionError'')"
proof -
  let ?msg = "''Bucket not found. Check spelling and region. (bucket='' @ [CHR 0x27]
        @ ''my-bucket'' @ [CHR 0x27]
        @ '', region=us-east-1, endpoint=https://s3.wasabisys.com)''"
  have hb: "head_bucket (s3_store (fresh_world no_bucket_store)) (WASABI_BUCKET ready_app) =
     Inl (ClientError \<lparr>Code = Some ''404'', Message = Some ''Not Found''\<rparr>)"
    by (simp add: input_defs valid_bucket_name_def bucket_name_char_def)
  have v: "validates_bucket_name (s3_store (fresh_world no_bucket_store))"
    by (auto simp: validates_bucket_name_def fresh_world_def no_bucket_store_def
        split: option.splits if_splits)
  have cfg: "WASABI_BUCKET ready_app = Some ''my-bucket''" "valid_bucket_name ''my-bucket''"
    "WASABI_REGION ready_app = Some ''us-east-1''"
    "g_auth_ok ready_app" "req_method report_upload = POST"
    by (simp_all add: input_defs valid_bucket_name_def bucket_name_char_def)
  have nfm: "''Bucket not found. Check spelling and region. ''
                  @ ''(bucket='' @ py_repr (WASABI_BUCKET ready_app)
                  @ '', region='' @ py_str (WASABI_REGION ready_app)
                  @ '', endpoint='' @ py_str (WASABI_ENDPOINT ready_app) @ '')'' = ?msg"
    by (simp add: ready_app_def repr_quote_def repr_char_def py_isprintable_def Let_def)
  note t = preflight_classification [OF refl refl refl refl, of "fresh_world no_bucket_store"
      ready_app report_upload keep_safe_chars, unfolded nfm]
  have p: "fst (preflight_bucket ready_app (fresh_world no_bucket_store)) = Inr (Some ?msg)"
    using t [THEN conjunct1, rule_format, OF conjI [OF hb refl], THEN conjunct1]
    by (simp add: err_text_def)
  have i: "index keep_safe_chars ready_app report_upload (fresh_world no_bucket_store) =
       (Inr (render_template_string ready_app None
          (Some (''Bucket check failed: '' @ ?msg)) None),
        (fresh_world no_bucket_store)\<lparr>s3_calls := [HeadBucket (Some ''my-bucket'')]\<rparr>)"
    using t [THEN conjunct1, rule_format, OF conjI [OF hb refl], THEN conjunct2] p cfg
    by (auto simp: fresh_world_def)
  have b: "py_in ''my-bucket'' ?msg"
    using t [THEN conjunct2, THEN conjunct2, THEN conjunct2, THEN conjunct2, THEN conjunct1,
        rule_format, OF conjI [OF hb v]] cfg(1)
    by auto
  have r: "py_in ''us-east-1'' ?msg"
    using t [THEN conjunct2, THEN conjunct2, THEN conjunct1, rule_format, OF cfg(3)] .
  have h1: "head_bucket (s3_store (fresh_world forbidden_store)) (WASABI_BUCKET ready_app) =
     Inl (ClientError \<lparr>Code = Some ''403'', Message = Some ''Forbidden''\<rparr>)"
   and h2: "head_bucket (s3_store (fresh_world moved_store)) (WASABI_BUCKET ready_app) =
     Inl (ClientError \<lparr>Code = Some ''301'', Message = Some ''Moved Permanently''\<rparr>)"
   and h3: "head_bucket (s3_store (fresh_world busy_store)) (WASABI_BUCKET ready_app) =
     Inl (ClientError \<lparr>Code = Some ''SlowDown'',
        Message = Some ''Please reduce your request rate.''\<rparr>)"
   and h4: "head_bucket (s3_store (fresh_world unreachable_store)) (WASABI_BUCKET ready_app) =
     Inl (OtherError ''EndpointConnectionError'')"
    by (simp_all add: input_defs)
  have 1: "fst (preflight_bucket ready_app (fresh_world forbidden_store)) =
       Inr (Some (''Access denied to bucket. Keys must belong to same Wasabi account ''
               @ ''and have s3:ListBucket & s3:PutObject.''))"
    using preflight_classification [OF refl refl refl refl, of "fresh_world forbidden_store"
      ready_app report_upload keep_safe_chars, THEN conjunct1, rule_format,
      OF conjI [OF h1 refl], THEN conjunct1]
    by (simp add: err_text_def)
  have 2: "fst (preflight_bucket ready_app (fresh_world moved_store)) =
       Inr (Some (''Region mismatch. Set WASABI_REGION to the bucket'' @ [CHR 0x27]
               @ ''s region '' @ ''and use endpoint https://s3.<region>.wasabisys.com''))"
    using preflight_classification [OF refl refl refl refl, of "fresh_world moved_store"
      ready_app report_upload keep_safe_chars, THEN conjunct1, rule_format,
      OF conjI [OF h2 refl], THEN conjunct1]
    by (simp add: err_text_def)
  have 3: "fst (preflight_bucket ready_app (fresh_world busy_store)) =
       Inr (Some ''SlowDown: Please reduce your request rate.'')"
    using preflight_classification [OF refl refl refl refl, of "fresh_world busy_store"
      ready_app report_upload keep_safe_chars, THEN conjunct1, rule_format,
      OF conjI [OF h3 refl], THEN conjunct1]
    by (simp add: err_text_def)
  have n: "\<not> is_client_error (OtherError ''EndpointConnectionError'')" by simp
  have 4: "fst (preflight_bucket ready_app (fresh_world unreachable_store)) =
       Inl (OtherError ''EndpointConnectionError'')"
    using preflight_classification [OF refl refl refl refl, of "fresh_world unreachable_store"
      ready_app report_upload keep_safe_chars, THEN conjunct2, THEN conjunct2, THEN conjunct2,
      THEN conjunct2, THEN conjunct2, rule_format, OF conjI [OF h4 n]] .
  from hb v cfg p b r i 1 2 3 n 4 show ?thesis by (intro conjI)
qed

end
